theory Spec2Isabelle
  imports Complex_Main
begin

section \<open>Numbers, vectors and matrices\<close>

text \<open>
  The source computes with C++ \<^verbatim>\<open>float\<close>. For the algebra of \<^verbatim>\<open>PreSolve\<close> and
  \<^verbatim>\<open>Solve\<close> (vectors, matrices, Jacobians, impulses, bias) a \<^verbatim>\<open>float\<close> is a
  \<^typ>\<open>real\<close>: the arithmetic is exact, and rounding, overflow, infinities and NaN are
  not represented. The comparisons and the clamps of \<^verbatim>\<open>PenetrationConstraint::Solve\<close>,
  whose outcome changes on a NaN or an infinity, are modelled a second time on a type
  \<open>float\<close> that has them (the section on the clamps of Solve on floats); what the clamps
  guarantee is stated there.
  The literals \<^verbatim>\<open>0.1f\<close>, \<^verbatim>\<open>0.2f\<close>, \<^verbatim>\<open>0.01f\<close> are the reals 1/10, 1/5, 1/100.
  Division is the division of \<^typ>\<open>real\<close>; the only divisor of the source is the time
  step \<^verbatim>\<open>dt\<close>, and statements that depend on the value of a quotient carry
  \<open>dt \<noteq> 0\<close>.

  \<^verbatim>\<open>Vec2\<close>, \<^verbatim>\<open>VecN\<close>, \<^verbatim>\<open>MatMN\<close> and \<^verbatim>\<open>Body\<close> are declared outside
  \<^verbatim>\<open>Constraint.cpp\<close>. Their data and their algebra are modelled from the specification
  (sections 3 and 6); the operations the specification leaves open are parameters of the
  model (record \<open>Collaborators\<close> below).
\<close>

text \<open>Modelled from the spec: the 2D vector type \<^verbatim>\<open>Vec2\<close> with its fields \<^verbatim>\<open>x\<close>, \<^verbatim>\<open>y\<close>.\<close>

record Vec2 =
  x :: real
  y :: real

text \<open>Modelled from the spec: \<^verbatim>\<open>Vec2::operator+\<close>, componentwise sum.\<close>

definition Vec2_add :: "Vec2 \<Rightarrow> Vec2 \<Rightarrow> Vec2" where
  "Vec2_add u v = \<lparr>x = x u + x v, y = y u + y v\<rparr>"

text \<open>Modelled from the spec: \<^verbatim>\<open>Vec2::operator-\<close> (binary), componentwise difference.\<close>

definition Vec2_sub :: "Vec2 \<Rightarrow> Vec2 \<Rightarrow> Vec2" where
  "Vec2_sub u v = \<lparr>x = x u - x v, y = y u - y v\<rparr>"

text \<open>Modelled from the spec: \<^verbatim>\<open>Vec2::operator-\<close> (unary), the opposite vector.\<close>

definition Vec2_neg :: "Vec2 \<Rightarrow> Vec2" where
  "Vec2_neg u = \<lparr>x = - x u, y = - y u\<rparr>"

text \<open>Modelled from the spec: \<^verbatim>\<open>Vec2::operator*\<close>, the product with a scalar.\<close>

definition Vec2_scale :: "Vec2 \<Rightarrow> real \<Rightarrow> Vec2" where
  "Vec2_scale u n = \<lparr>x = x u * n, y = y u * n\<rparr>"

text \<open>Modelled from the spec: \<^verbatim>\<open>Vec2::Dot\<close>, the scalar product.\<close>

definition Vec2_Dot :: "Vec2 \<Rightarrow> Vec2 \<Rightarrow> real" where
  "Vec2_Dot u v = x u * x v + y u * y v"

text \<open>Modelled from the spec: \<^verbatim>\<open>Vec2::Cross\<close>, the scalar 2D cross product.\<close>

definition Vec2_Cross :: "Vec2 \<Rightarrow> Vec2 \<Rightarrow> real" where
  "Vec2_Cross u v = x u * y v - y u * x v"

text \<open>
  Modelled from the spec: \<^verbatim>\<open>VecN\<close>, a vector of \<open>N\<close> components, and \<^verbatim>\<open>MatMN\<close>, a
  matrix stored as its \<open>M\<close> rows of \<open>N\<close> components each.
\<close>

type_synonym VecN = "real list"

type_synonym MatMN = "real list list"

text \<open>
  Modelled from the spec: \<^verbatim>\<open>VecN::Dot\<close>, the sum of the products of the components, over
  the components of the left operand.
\<close>

definition VecN_Dot :: "VecN \<Rightarrow> VecN \<Rightarrow> real" where
  "VecN_Dot u v = sum_list (map (\<lambda>i. u ! i * v ! i) [0..<length u])"

text \<open>
  Modelled from the spec: \<^verbatim>\<open>VecN::operator+=\<close>, componentwise, over the components of
  the left operand (which keeps its size).
\<close>

definition VecN_add :: "VecN \<Rightarrow> VecN \<Rightarrow> VecN" where
  "VecN_add u v = map (\<lambda>i. u ! i + v ! i) [0..<length u]"

text \<open>Modelled from the spec: \<^verbatim>\<open>VecN::operator-\<close>, componentwise, sized as the left operand.\<close>

definition VecN_sub :: "VecN \<Rightarrow> VecN \<Rightarrow> VecN" where
  "VecN_sub u v = map (\<lambda>i. u ! i - v ! i) [0..<length u]"

text \<open>Modelled from the spec: \<^verbatim>\<open>VecN::operator*\<close>, the product with a scalar.\<close>

definition VecN_scale :: "VecN \<Rightarrow> real \<Rightarrow> VecN" where
  "VecN_scale u n = map (\<lambda>e. e * n) u"

text \<open>Modelled from the spec: \<^verbatim>\<open>MatMN::Zero\<close>, every entry set to 0, the shape kept.\<close>

definition MatMN_Zero :: "MatMN \<Rightarrow> MatMN" where
  "MatMN_Zero m = map (map (\<lambda>e. 0)) m"

text \<open>Modelled from the spec: the indexed write \<^verbatim>\<open>m.rows[i][j] = v\<close>.\<close>

definition MatMN_set :: "MatMN \<Rightarrow> nat \<Rightarrow> nat \<Rightarrow> real \<Rightarrow> MatMN" where
  "MatMN_set m i j v = m[i := (m ! i)[j := v]]"

text \<open>Modelled from the spec: \<^verbatim>\<open>MatMN::Transpose\<close>; entry \<open>(j, i)\<close> is entry \<open>(i, j)\<close> of \<open>m\<close>.\<close>

definition MatMN_Transpose :: "MatMN \<Rightarrow> MatMN" where
  "MatMN_Transpose m = map (\<lambda>j. map (\<lambda>r. r ! j) m) [0..<length (hd m)]"

text \<open>Modelled from the spec: \<^verbatim>\<open>MatMN::operator*(VecN)\<close>; entry \<open>i\<close> is row \<open>i\<close> times \<open>v\<close>.\<close>

definition MatMN_mul_VecN :: "MatMN \<Rightarrow> VecN \<Rightarrow> VecN" where
  "MatMN_mul_VecN m v = map (\<lambda>r. VecN_Dot r v) m"

text \<open>
  Modelled from the spec: \<^verbatim>\<open>MatMN::operator*(MatMN)\<close>; entry \<open>(i, j)\<close> is row \<open>i\<close> of
  the left operand times column \<open>j\<close> of the right one.
\<close>

definition MatMN_mul :: "MatMN \<Rightarrow> MatMN \<Rightarrow> MatMN" where
  "MatMN_mul m n = map (\<lambda>r. map (\<lambda>c. VecN_Dot r c) (MatMN_Transpose n)) m"

text \<open>
  \<^verbatim>\<open>std::clamp(v, lo, hi)\<close> of the C++ standard library. Its behaviour is undefined when
  \<open>hi < lo\<close>; the model returns \<open>None\<close> there, and otherwise
  \<^verbatim>\<open>(v < lo) ? lo : (hi < v) ? hi : v\<close>.
\<close>

definition std_clamp :: "real \<Rightarrow> real \<Rightarrow> real \<Rightarrow> real option" where
  "std_clamp v lo hi =
     (if hi < lo then None else Some (if v < lo then lo else if hi < v then hi else v))"

section \<open>Rigid bodies\<close>

text \<open>
  Modelled from the spec: the fields of \<^verbatim>\<open>Body\<close> that the constraints read or that its
  own methods may read (section 6: velocity, angular velocity, inverse mass, inverse
  rotational inertia, friction, restitution, position; the rotation is the pose that the
  local/world transforms use).
\<close>

record Body =
  position :: Vec2
  velocity :: Vec2
  rotation :: real
  angularVelocity :: real
  invMass :: real
  invI :: real
  friction :: real
  restitution :: real

text \<open>
  The constraints hold pointers to bodies that other constraints share. A pointer is a
  handle (a natural number), and the bodies live in a store that every operation takes
  and returns; two handles may be equal.
\<close>

type_synonym Bodies = "nat \<Rightarrow> Body"

text \<open>
  Modelled from the spec: the operations of the collaborators whose bodies are not in
  \<^verbatim>\<open>Constraint.cpp\<close> and which the specification names without defining:
  \<^verbatim>\<open>Body::LocalSpaceToWorldSpace\<close>, \<^verbatim>\<open>Body::ApplyImpulseLinear\<close>,
  \<^verbatim>\<open>Body::ApplyImpulseAngular\<close>, \<^verbatim>\<open>Vec2::Normal\<close> and
  \<^verbatim>\<open>MatMN::SolveGaussSeidel\<close>. They are parameters: every theorem below holds for
  all of their implementations.
\<close>

record Collaborators =
  LocalSpaceToWorldSpace :: "Body \<Rightarrow> Vec2 \<Rightarrow> Vec2"
  ApplyImpulseLinear :: "Body \<Rightarrow> Vec2 \<Rightarrow> Body"
  ApplyImpulseAngular :: "Body \<Rightarrow> real \<Rightarrow> Body"
  Normal :: "Vec2 \<Rightarrow> Vec2"
  SolveGaussSeidel :: "MatMN \<Rightarrow> VecN \<Rightarrow> VecN"

section \<open>Constraints\<close>

text \<open>
  \<^verbatim>\<open>class Constraint\<close>: the two bodies and the two points in their local frames.
\<close>

record Constraint =
  a :: nat
  b :: nat
  aPoint :: Vec2
  bPoint :: Vec2

text \<open>\<^verbatim>\<open>Constraint::GetVelocities\<close> (lines 4 to 14).\<close>

definition GetVelocities :: "Bodies \<Rightarrow> 'z Constraint_scheme \<Rightarrow> VecN" where
  "GetVelocities bs c =
     [x (velocity (bs (a c))), y (velocity (bs (a c))), angularVelocity (bs (a c)),
      x (velocity (bs (b c))), y (velocity (bs (b c))), angularVelocity (bs (b c))]"

text \<open>\<^verbatim>\<open>Constraint::GetInvM\<close> (lines 16 to 26).\<close>

definition GetInvM :: "Bodies \<Rightarrow> 'z Constraint_scheme \<Rightarrow> MatMN" where
  "GetInvM bs c =
     [[invMass (bs (a c)), 0, 0, 0, 0, 0],
      [0, invMass (bs (a c)), 0, 0, 0, 0],
      [0, 0, invI (bs (a c)), 0, 0, 0],
      [0, 0, 0, invMass (bs (b c)), 0, 0],
      [0, 0, 0, 0, invMass (bs (b c)), 0],
      [0, 0, 0, 0, 0, invI (bs (b c))]]"

text \<open>
  The four calls that end \<^verbatim>\<open>PreSolve\<close> and \<^verbatim>\<open>Solve\<close> of both constraints
  (lines 69 to 72, 101 to 104, 163 to 166, 214 to 217), in their order: linear then
  angular impulse on \<open>a\<close>, then linear and angular impulse on \<open>b\<close>. Each call reads the
  body as the calls before it left it.
\<close>

definition ApplyImpulses :: "Collaborators \<Rightarrow> nat \<Rightarrow> nat \<Rightarrow> VecN \<Rightarrow> Bodies \<Rightarrow> Bodies" where
  "ApplyImpulses E ha hb impulses bs =
     (let bs1 = bs(ha := ApplyImpulseLinear E (bs ha) \<lparr>x = impulses ! 0, y = impulses ! 1\<rparr>);
          bs2 = bs1(ha := ApplyImpulseAngular E (bs1 ha) (impulses ! 2));
          bs3 = bs2(hb := ApplyImpulseLinear E (bs2 hb) \<lparr>x = impulses ! 3, y = impulses ! 4\<rparr>);
          bs4 = bs3(hb := ApplyImpulseAngular E (bs3 hb) (impulses ! 5))
      in bs4)"

subsection \<open>Joint constraint\<close>

record JointConstraint = Constraint +
  jacobian :: MatMN
  cachedLambda :: VecN
  bias :: real

text \<open>
  The constructors give the Jacobian 1 row of 6 columns and the cached impulse 1
  component (lines 28 and 32), and \<^verbatim>\<open>PreSolve\<close> and \<^verbatim>\<open>Solve\<close> keep these sizes
  (section 3 of the specification states them as an invariant). The indexed reads and
  writes of the source are in range for such a constraint.
\<close>

definition JointConstraint_sized :: "JointConstraint \<Rightarrow> bool" where
  "JointConstraint_sized c \<longleftrightarrow>
     map length (JointConstraint.jacobian c) = [6] \<and> length (JointConstraint.cachedLambda c) = 1"

text \<open>\<^verbatim>\<open>JointConstraint::PreSolve\<close> (lines 40 to 79).\<close>

definition JointConstraint_PreSolve ::
  "Collaborators \<Rightarrow> real \<Rightarrow> Bodies \<times> JointConstraint \<Rightarrow> Bodies \<times> JointConstraint" where
  "JointConstraint_PreSolve E dt s =
     (let bs = fst s; c = snd s;
          pa = LocalSpaceToWorldSpace E (bs (a c)) (aPoint c);
          pb = LocalSpaceToWorldSpace E (bs (b c)) (bPoint c);
          ra = Vec2_sub pa (position (bs (a c)));
          rb = Vec2_sub pb (position (bs (b c)));
          j0 = MatMN_Zero (JointConstraint.jacobian c);
          J1 = Vec2_scale (Vec2_sub pa pb) 2;
          j1 = MatMN_set j0 0 0 (x J1);
          j2 = MatMN_set j1 0 1 (y J1);
          J2 = Vec2_Cross ra (Vec2_sub pa pb) * 2;
          j3 = MatMN_set j2 0 2 J2;
          J3 = Vec2_scale (Vec2_sub pb pa) 2;
          j4 = MatMN_set j3 0 3 (x J3);
          j5 = MatMN_set j4 0 4 (y J3);
          J4 = Vec2_Cross rb (Vec2_sub pb pa) * 2;
          j6 = MatMN_set j5 0 5 J4;
          Jt = MatMN_Transpose j6;
          impulses = MatMN_mul_VecN Jt (JointConstraint.cachedLambda c);
          bs' = ApplyImpulses E (a c) (b c) impulses bs;
          beta = 0.1;
          C = Vec2_Dot (Vec2_sub pb pa) (Vec2_sub pb pa);
          C' = max 0 (C - 0.01)
      in (bs', c\<lparr>JointConstraint.jacobian := j6, JointConstraint.bias := (beta / dt) * C'\<rparr>))"

text \<open>\<^verbatim>\<open>JointConstraint::Solve\<close> (lines 81 to 105).\<close>

definition JointConstraint_Solve ::
  "Collaborators \<Rightarrow> Bodies \<times> JointConstraint \<Rightarrow> Bodies \<times> JointConstraint" where
  "JointConstraint_Solve E s =
     (let bs = fst s; c = snd s;
          V = GetVelocities bs c;
          invM = GetInvM bs c;
          J = JointConstraint.jacobian c;
          Jt = MatMN_Transpose (JointConstraint.jacobian c);
          lhs = MatMN_mul (MatMN_mul J invM) Jt;
          rhs0 = VecN_scale (MatMN_mul_VecN J V) (- 1);
          rhs = rhs0[0 := rhs0 ! 0 - JointConstraint.bias c];
          lambda = SolveGaussSeidel E lhs rhs;
          cachedLambda' = VecN_add (JointConstraint.cachedLambda c) lambda;
          impulses = MatMN_mul_VecN Jt lambda;
          bs' = ApplyImpulses E (a c) (b c) impulses bs
      in (bs', c\<lparr>JointConstraint.cachedLambda := cachedLambda'\<rparr>))"

subsection \<open>Penetration constraint\<close>

record PenetrationConstraint = Constraint +
  jacobian :: MatMN
  cachedLambda :: VecN
  bias :: real
  normal :: Vec2
  friction :: real

text \<open>
  The constructors give the Jacobian 2 rows of 6 columns and the cached impulse 2
  components (lines 107 and 112), and \<^verbatim>\<open>PreSolve\<close> and \<^verbatim>\<open>Solve\<close> keep these sizes
  (section 3 of the specification states them as an invariant). The indexed reads and
  writes of the source are in range for such a constraint.
\<close>

definition PenetrationConstraint_sized :: "PenetrationConstraint \<Rightarrow> bool" where
  "PenetrationConstraint_sized c \<longleftrightarrow>
     map length (PenetrationConstraint.jacobian c) = [6, 6] \<and>
     length (PenetrationConstraint.cachedLambda c) = 2"

text \<open>
  The Jacobian that \<^verbatim>\<open>PenetrationConstraint::PreSolve\<close> builds (lines 124 to 156): row 0
  from the normal, and row 1 from the tangent when the friction is positive.
\<close>

definition PenetrationConstraint_Jacobian ::
  "Collaborators \<Rightarrow> Bodies \<Rightarrow> PenetrationConstraint \<Rightarrow> MatMN" where
  "PenetrationConstraint_Jacobian E bs c =
     (let pa = LocalSpaceToWorldSpace E (bs (a c)) (aPoint c);
          pb = LocalSpaceToWorldSpace E (bs (b c)) (bPoint c);
          n = LocalSpaceToWorldSpace E (bs (a c)) (normal c);
          ra = Vec2_sub pa (position (bs (a c)));
          rb = Vec2_sub pb (position (bs (b c)));
          j0 = MatMN_Zero (PenetrationConstraint.jacobian c);
          J1 = Vec2_neg n;
          j1 = MatMN_set j0 0 0 (x J1);
          j2 = MatMN_set j1 0 1 (y J1);
          J2 = - Vec2_Cross ra n;
          j3 = MatMN_set j2 0 2 J2;
          J3 = n;
          j4 = MatMN_set j3 0 3 (x J3);
          j5 = MatMN_set j4 0 4 (y J3);
          J4 = Vec2_Cross rb n;
          j6 = MatMN_set j5 0 5 J4;
          friction' = max (Body.friction (bs (a c))) (Body.friction (bs (b c)))
      in if friction' > 0 then
           (let t = Normal E n;
                k1 = MatMN_set j6 1 0 (- x t);
                k2 = MatMN_set k1 1 1 (- y t);
                k3 = MatMN_set k2 1 2 (- Vec2_Cross ra t);
                k4 = MatMN_set k3 1 3 (x t);
                k5 = MatMN_set k4 1 4 (y t);
                k6 = MatMN_set k5 1 5 (Vec2_Cross rb t)
            in k6)
         else j6)"

text \<open>\<^verbatim>\<open>PenetrationConstraint::PreSolve\<close> (lines 122 to 183).\<close>

definition PenetrationConstraint_PreSolve ::
  "Collaborators \<Rightarrow> real \<Rightarrow> Bodies \<times> PenetrationConstraint \<Rightarrow> Bodies \<times> PenetrationConstraint" where
  "PenetrationConstraint_PreSolve E dt s =
     (let bs = fst s; c = snd s;
          pa = LocalSpaceToWorldSpace E (bs (a c)) (aPoint c);
          pb = LocalSpaceToWorldSpace E (bs (b c)) (bPoint c);
          n = LocalSpaceToWorldSpace E (bs (a c)) (normal c);
          ra = Vec2_sub pa (position (bs (a c)));
          rb = Vec2_sub pb (position (bs (b c)));
          jac = PenetrationConstraint_Jacobian E bs c;
          friction' = max (Body.friction (bs (a c))) (Body.friction (bs (b c)));
          Jt = MatMN_Transpose jac;
          impulses = MatMN_mul_VecN Jt (PenetrationConstraint.cachedLambda c);
          bs' = ApplyImpulses E (a c) (b c) impulses bs;
          beta = 0.2;
          C = Vec2_Dot (Vec2_sub pb pa) (Vec2_neg n);
          C' = min 0 (C + 0.01);
          va = Vec2_add (velocity (bs' (a c)))
                 \<lparr>x = - angularVelocity (bs' (a c)) * y ra, y = angularVelocity (bs' (a c)) * x ra\<rparr>;
          vb = Vec2_add (velocity (bs' (b c)))
                 \<lparr>x = - angularVelocity (bs' (b c)) * y rb, y = angularVelocity (bs' (b c)) * x rb\<rparr>;
          vrelDotNormal = Vec2_Dot (Vec2_sub va vb) n;
          e = min (restitution (bs' (a c))) (restitution (bs' (b c)))
      in (bs', c\<lparr>PenetrationConstraint.jacobian := jac,
                 PenetrationConstraint.friction := friction',
                 PenetrationConstraint.bias := (beta / dt) * C' + (e * vrelDotNormal)\<rparr>))"

text \<open>
  The accumulated impulse of \<^verbatim>\<open>PenetrationConstraint::Solve\<close> after
  \<^verbatim>\<open>cachedLambda += lambda\<close> and the clamp of its component 0 (lines 200 and 201),
  over the reals. On a NaN the test of line 201 is false and the NaN stays:
  \<open>PenetrationConstraint_Solve_accumulated\<close> below has that case.
\<close>

definition PenetrationConstraint_accumulated :: "PenetrationConstraint \<Rightarrow> VecN \<Rightarrow> VecN" where
  "PenetrationConstraint_accumulated c lambda =
     (let l1 = VecN_add (PenetrationConstraint.cachedLambda c) lambda
      in l1[0 := (if l1 ! 0 < 0 then 0 else l1 ! 0)])"

text \<open>
  The local \<^verbatim>\<open>maxFriction\<close> of line 204, read from the vector of line 201, over the
  reals. On \<^verbatim>\<open>float\<close> the product can be NaN:
  \<open>PenetrationConstraint_Solve_maxFriction\<close> below has that case.
\<close>

definition PenetrationConstraint_maxFriction :: "PenetrationConstraint \<Rightarrow> VecN \<Rightarrow> real" where
  "PenetrationConstraint_maxFriction c lambda =
     PenetrationConstraint_accumulated c lambda ! 0 * PenetrationConstraint.friction c"

text \<open>
  The accumulated impulse after the friction clamp as well (lines 203 to 206). \<open>None\<close> is
  the undefined behaviour of \<^verbatim>\<open>std::clamp\<close>.
\<close>

definition PenetrationConstraint_clamped :: "PenetrationConstraint \<Rightarrow> VecN \<Rightarrow> VecN option" where
  "PenetrationConstraint_clamped c lambda =
     (let l2 = PenetrationConstraint_accumulated c lambda
      in if PenetrationConstraint.friction c > 0 then
           (let maxFriction = PenetrationConstraint_maxFriction c lambda
            in case std_clamp (l2 ! 1) (- maxFriction) maxFriction of
                 None \<Rightarrow> None
               | Some v \<Rightarrow> Some (l2[1 := v]))
         else Some l2)"

text \<open>
  The \<open>lambda\<close> that the linear solver returns in \<^verbatim>\<open>PenetrationConstraint::Solve\<close>
  (lines 186 to 198).
\<close>

definition PenetrationConstraint_solved :: "Collaborators \<Rightarrow> Bodies \<Rightarrow> PenetrationConstraint \<Rightarrow> VecN" where
  "PenetrationConstraint_solved E bs c =
     (let V = GetVelocities bs c;
          invM = GetInvM bs c;
          J = PenetrationConstraint.jacobian c;
          Jt = MatMN_Transpose (PenetrationConstraint.jacobian c);
          lhs = MatMN_mul (MatMN_mul J invM) Jt;
          rhs0 = VecN_scale (MatMN_mul_VecN J V) (- 1);
          rhs = rhs0[0 := rhs0 ! 0 - PenetrationConstraint.bias c]
      in SolveGaussSeidel E lhs rhs)"

text \<open>\<^verbatim>\<open>PenetrationConstraint::Solve\<close> (lines 185 to 218).\<close>

definition PenetrationConstraint_Solve ::
  "Collaborators \<Rightarrow> Bodies \<times> PenetrationConstraint \<Rightarrow> (Bodies \<times> PenetrationConstraint) option" where
  "PenetrationConstraint_Solve E s =
     (let bs = fst s; c = snd s;
          Jt = MatMN_Transpose (PenetrationConstraint.jacobian c);
          lambda = PenetrationConstraint_solved E bs c;
          oldLambda = PenetrationConstraint.cachedLambda c
      in case PenetrationConstraint_clamped c lambda of
           None \<Rightarrow> None
         | Some cachedLambda' \<Rightarrow>
             (let lambda' = VecN_sub cachedLambda' oldLambda;
                  impulses = MatMN_mul_VecN Jt lambda';
                  bs' = ApplyImpulses E (a c) (b c) impulses bs
              in Some (bs', c\<lparr>PenetrationConstraint.cachedLambda := cachedLambda'\<rparr>)))"

section \<open>The clamps of Solve on floats with NaN and infinities\<close>

text \<open>
  The comparisons and the clamps of \<^verbatim>\<open>PenetrationConstraint::Solve\<close> (lines 199 to 206)
  behave on a NaN or an infinity as on no real number: every comparison with a NaN is
  false, and \<open>0 * \<infinity>\<close> and \<open>\<infinity> - \<infinity>\<close> are NaN. For these lines a \<^verbatim>\<open>float\<close> is
  therefore a value of the type below: a real number, an infinity or NaN, with the
  arithmetic of IEEE 754 on the special values. Rounding, overflow of a finite result and
  the sign of zero are not represented.
\<close>

datatype float = Finite real | PlusInfinity | MinusInfinity | NaN

text \<open>Unary minus of \<^verbatim>\<open>float\<close>.\<close>

fun float_neg :: "float \<Rightarrow> float" where
  "float_neg (Finite u) = Finite (- u)"
| "float_neg PlusInfinity = MinusInfinity"
| "float_neg MinusInfinity = PlusInfinity"
| "float_neg NaN = NaN"

text \<open>The absolute value of a \<^verbatim>\<open>float\<close> (\<^verbatim>\<open>std::fabs\<close>), used to state the friction bound.\<close>

fun float_abs :: "float \<Rightarrow> float" where
  "float_abs (Finite u) = Finite \<bar>u\<bar>"
| "float_abs PlusInfinity = PlusInfinity"
| "float_abs MinusInfinity = PlusInfinity"
| "float_abs NaN = NaN"

text \<open>\<^verbatim>\<open>operator+\<close> of \<^verbatim>\<open>float\<close>: NaN propagates, and the sum of opposite infinities is NaN.\<close>

fun float_add :: "float \<Rightarrow> float \<Rightarrow> float" where
  "float_add NaN v = NaN"
| "float_add u NaN = NaN"
| "float_add (Finite u) (Finite v) = Finite (u + v)"
| "float_add PlusInfinity MinusInfinity = NaN"
| "float_add MinusInfinity PlusInfinity = NaN"
| "float_add PlusInfinity v = PlusInfinity"
| "float_add u PlusInfinity = PlusInfinity"
| "float_add MinusInfinity v = MinusInfinity"
| "float_add u MinusInfinity = MinusInfinity"

text \<open>\<^verbatim>\<open>operator*\<close> of \<^verbatim>\<open>float\<close>: NaN propagates, and zero times an infinity is NaN.\<close>

fun float_mul :: "float \<Rightarrow> float \<Rightarrow> float" where
  "float_mul NaN v = NaN"
| "float_mul u NaN = NaN"
| "float_mul (Finite u) (Finite v) = Finite (u * v)"
| "float_mul (Finite u) PlusInfinity =
     (if u = 0 then NaN else if 0 < u then PlusInfinity else MinusInfinity)"
| "float_mul (Finite u) MinusInfinity =
     (if u = 0 then NaN else if 0 < u then MinusInfinity else PlusInfinity)"
| "float_mul PlusInfinity (Finite v) =
     (if v = 0 then NaN else if 0 < v then PlusInfinity else MinusInfinity)"
| "float_mul MinusInfinity (Finite v) =
     (if v = 0 then NaN else if 0 < v then MinusInfinity else PlusInfinity)"
| "float_mul PlusInfinity PlusInfinity = PlusInfinity"
| "float_mul PlusInfinity MinusInfinity = MinusInfinity"
| "float_mul MinusInfinity PlusInfinity = MinusInfinity"
| "float_mul MinusInfinity MinusInfinity = PlusInfinity"

text \<open>\<^verbatim>\<open>operator<\<close> of \<^verbatim>\<open>float\<close>: false as soon as an operand is NaN.\<close>

fun float_less :: "float \<Rightarrow> float \<Rightarrow> bool" where
  "float_less NaN v = False"
| "float_less u NaN = False"
| "float_less (Finite u) (Finite v) = (u < v)"
| "float_less u MinusInfinity = False"
| "float_less PlusInfinity v = False"
| "float_less MinusInfinity v = True"
| "float_less u PlusInfinity = True"

text \<open>\<^verbatim>\<open>operator<=\<close> of \<^verbatim>\<open>float\<close>: false as soon as an operand is NaN.\<close>

fun float_le :: "float \<Rightarrow> float \<Rightarrow> bool" where
  "float_le NaN v = False"
| "float_le u NaN = False"
| "float_le (Finite u) (Finite v) = (u \<le> v)"
| "float_le MinusInfinity v = True"
| "float_le u PlusInfinity = True"
| "float_le u MinusInfinity = False"
| "float_le PlusInfinity v = False"

text \<open>
  \<^verbatim>\<open>std::clamp(v, lo, hi)\<close> on \<^verbatim>\<open>float\<close>: \<open>None\<close> when \<open>hi < lo\<close> (the call that the
  standard forbids), and otherwise the value \<^verbatim>\<open>(v < lo) ? lo : (hi < v) ? hi : v\<close> that
  the library computes. With a NaN bound both tests are false and \<open>v\<close> comes back as it is.
\<close>

definition float_clamp :: "float \<Rightarrow> float \<Rightarrow> float \<Rightarrow> float option" where
  "float_clamp v lo hi =
     (if float_less hi lo then None
      else Some (if float_less v lo then lo else if float_less hi v then hi else v))"

text \<open>
  \<^verbatim>\<open>cachedLambda += lambda\<close> and the clamp of component 0 (lines 200 and 201) on
  \<^verbatim>\<open>float\<close>, from the \<^verbatim>\<open>cachedLambda\<close> that \<^verbatim>\<open>Solve\<close> finds and the \<open>lambda\<close> that the
  linear solver returned.
\<close>

definition PenetrationConstraint_Solve_accumulated :: "float list \<Rightarrow> float list \<Rightarrow> float list" where
  "PenetrationConstraint_Solve_accumulated cl lambda =
     (let l1 = map (\<lambda>i. float_add (cl ! i) (lambda ! i)) [0..<length cl]
      in l1[0 := (if float_less (l1 ! 0) (Finite 0) then Finite 0 else l1 ! 0)])"

text \<open>The local \<^verbatim>\<open>maxFriction\<close> of line 204 on \<^verbatim>\<open>float\<close>.\<close>

definition PenetrationConstraint_Solve_maxFriction :: "float \<Rightarrow> float list \<Rightarrow> float list \<Rightarrow> float" where
  "PenetrationConstraint_Solve_maxFriction fr cl lambda =
     float_mul (PenetrationConstraint_Solve_accumulated cl lambda ! 0) fr"

text \<open>
  The \<^verbatim>\<open>cachedLambda\<close> that \<^verbatim>\<open>PenetrationConstraint::Solve\<close> leaves (lines 199 to 206; the
  lines after them do not write it), on \<^verbatim>\<open>float\<close>: a function of the constraint's
  friction (\<open>fr\<close>), the \<^verbatim>\<open>cachedLambda\<close> it finds (\<open>cl\<close>) and the solver's \<open>lambda\<close>. The test
  \<^verbatim>\<open>friction > 0.0\<close> is \<open>0 < friction\<close>, false for a NaN.
\<close>

definition PenetrationConstraint_Solve_cachedLambda ::
  "float \<Rightarrow> float list \<Rightarrow> float list \<Rightarrow> float list option" where
  "PenetrationConstraint_Solve_cachedLambda fr cl lambda =
     (let l2 = PenetrationConstraint_Solve_accumulated cl lambda
      in if float_less (Finite 0) fr then
           (let maxFriction = PenetrationConstraint_Solve_maxFriction fr cl lambda
            in case float_clamp (l2 ! 1) (float_neg maxFriction) maxFriction of
                 None \<Rightarrow> None
               | Some v \<Rightarrow> Some (l2[1 := v]))
         else Some l2)"

section \<open>A reference instance\<close>

text \<open>
  Modelled from the spec: one implementation of each collaborator, as section 6 and
  section 7 of the specification describe them, to run the constraints on concrete
  bodies. The general statements below hold for every implementation.
\<close>

text \<open>
  Modelled from the spec: \<^verbatim>\<open>Body::LocalSpaceToWorldSpace\<close>, the local point rotated by
  the body's rotation and moved to the body's position.
\<close>

definition Body_LocalSpaceToWorldSpace :: "Body \<Rightarrow> Vec2 \<Rightarrow> Vec2" where
  "Body_LocalSpaceToWorldSpace bd p =
     \<lparr>x = x p * cos (rotation bd) - y p * sin (rotation bd) + x (position bd),
      y = x p * sin (rotation bd) + y p * cos (rotation bd) + y (position bd)\<rparr>"

text \<open>
  Modelled from the spec: \<^verbatim>\<open>Body::ApplyImpulseLinear\<close>, the impulse times the inverse
  mass added to the velocity (no change for a body of inverse mass 0).
\<close>

definition Body_ApplyImpulseLinear :: "Body \<Rightarrow> Vec2 \<Rightarrow> Body" where
  "Body_ApplyImpulseLinear bd j = bd\<lparr>velocity := Vec2_add (velocity bd) (Vec2_scale j (invMass bd))\<rparr>"

text \<open>
  Modelled from the spec: \<^verbatim>\<open>Body::ApplyImpulseAngular\<close>, the impulse times the inverse
  rotational inertia added to the angular velocity.
\<close>

definition Body_ApplyImpulseAngular :: "Body \<Rightarrow> real \<Rightarrow> Body" where
  "Body_ApplyImpulseAngular bd j = bd\<lparr>angularVelocity := angularVelocity bd + j * invI bd\<rparr>"

text \<open>Modelled from the spec: \<^verbatim>\<open>Vec2::Normal\<close>, a vector perpendicular to its argument.\<close>

definition Vec2_Normal :: "Vec2 \<Rightarrow> Vec2" where
  "Vec2_Normal v = \<lparr>x = y v, y = - x v\<rparr>"

text \<open>
  Modelled from the spec: one Gauss-Seidel update of component \<open>i\<close>; a zero diagonal
  entry contributes nothing.
\<close>

definition GaussSeidel_row :: "MatMN \<Rightarrow> VecN \<Rightarrow> nat \<Rightarrow> VecN \<Rightarrow> VecN" where
  "GaussSeidel_row A rhs i X =
     (if A ! i ! i = 0 then X
      else X[i := X ! i + (rhs ! i - VecN_Dot (A ! i) X) / (A ! i ! i)])"

text \<open>
  Modelled from the spec: \<^verbatim>\<open>MatMN::SolveGaussSeidel\<close>, as many sweeps over the rows as
  the system has unknowns, from the zero vector.
\<close>

definition MatMN_SolveGaussSeidel :: "MatMN \<Rightarrow> VecN \<Rightarrow> VecN" where
  "MatMN_SolveGaussSeidel A rhs =
     fold (\<lambda>k. fold (GaussSeidel_row A rhs) [0..<length rhs]) [0..<length rhs]
       (replicate (length rhs) 0)"

definition Reference :: Collaborators where
  "Reference =
     \<lparr>LocalSpaceToWorldSpace = Body_LocalSpaceToWorldSpace,
      ApplyImpulseLinear = Body_ApplyImpulseLinear,
      ApplyImpulseAngular = Body_ApplyImpulseAngular,
      Normal = Vec2_Normal,
      SolveGaussSeidel = MatMN_SolveGaussSeidel\<rparr>"

text \<open>
  Two bodies of mass 1 and inertia 1 that move towards each other: body 0 at the origin,
  body 1 at \<open>(2, 0)\<close>.
\<close>

definition scene :: Bodies where
  "scene h =
     (if h = 0 then
        \<lparr>position = \<lparr>x = 0, y = 0\<rparr>, velocity = \<lparr>x = 1, y = 0\<rparr>, rotation = 0,
         angularVelocity = 0, invMass = 1, invI = 1, Body.friction = 1/2, restitution = 1/2\<rparr>
      else
        \<lparr>position = \<lparr>x = 2, y = 0\<rparr>, velocity = \<lparr>x = - 1, y = 0\<rparr>, rotation = 0,
         angularVelocity = 0, invMass = 1, invI = 1, Body.friction = 1/4, restitution = 1/4\<rparr>)"


text \<open>
  A contact between body 0 and body 1 with normal \<open>(1, 0)\<close>, the contact points 1/10
  apart along the normal, and an accumulated impulse from the step before.
\<close>

definition contact :: PenetrationConstraint where
  "contact =
     \<lparr>a = 0, b = 1, aPoint = \<lparr>x = 1, y = 0\<rparr>, bPoint = \<lparr>x = - 9/10, y = 0\<rparr>,
      jacobian = [[0, 0, 0, 0, 0, 0], [0, 0, 0, 0, 0, 0]], cachedLambda = [1, 1/4], bias = 0,
      normal = \<lparr>x = 1, y = 0\<rparr>, friction = 0\<rparr>"

text \<open>
  A joint between body 0 and body 1 whose anchors, \<open>(1, 1/2)\<close> and \<open>(3/2, 0)\<close> in world
  space, are apart.
\<close>

definition joint :: JointConstraint where
  "joint =
     \<lparr>a = 0, b = 1, aPoint = \<lparr>x = 1, y = 1/2\<rparr>, bPoint = \<lparr>x = - 1/2, y = 0\<rparr>,
      JointConstraint.jacobian = [[0, 0, 0, 0, 0, 0]], JointConstraint.cachedLambda = [1/2],
      JointConstraint.bias = 0\<rparr>"

text \<open>The joint with its anchors brought together: both lie at \<open>(1, 1/2)\<close>.\<close>

definition joint_tight :: JointConstraint where
  "joint_tight = joint\<lparr>bPoint := \<lparr>x = - 1, y = 1/2\<rparr>\<rparr>"

text \<open>The bodies of \<open>scene\<close> moving apart instead.\<close>

definition scene_apart :: Bodies where
  "scene_apart h = (scene h)\<lparr>velocity := Vec2_neg (velocity (scene h))\<rparr>"

text \<open>The contact with no impulse accumulated yet.\<close>

definition contact_fresh :: PenetrationConstraint where
  "contact_fresh = contact\<lparr>PenetrationConstraint.cachedLambda := [0, 0]\<rparr>"

text \<open>The three contacts after \<^verbatim>\<open>PreSolve\<close> with a time step of 1/10.\<close>

definition contact_started :: "Bodies \<times> PenetrationConstraint" where
  "contact_started = PenetrationConstraint_PreSolve Reference (1/10) (scene, contact)"


definition apart_started :: "Bodies \<times> PenetrationConstraint" where
  "apart_started = PenetrationConstraint_PreSolve Reference (1/10) (scene_apart, contact_fresh)"

text \<open>The joint after \<^verbatim>\<open>PreSolve\<close> with a time step of 1/10.\<close>

definition joint_started :: "Bodies \<times> JointConstraint" where
  "joint_started = JointConstraint_PreSolve Reference (1/10) (scene, joint)"

section \<open>Vectors and matrices of the sizes the constraints use\<close>

lemmas vec_defs = Vec2_add_def Vec2_sub_def Vec2_neg_def Vec2_scale_def Vec2_Dot_def Vec2_Cross_def

lemmas ref_defs = Reference_def Body_LocalSpaceToWorldSpace_def Body_ApplyImpulseLinear_def
  Body_ApplyImpulseAngular_def Vec2_Normal_def

lemma length6_cases:
  assumes "length r = 6"
  obtains e0 e1 e2 e3 e4 e5 where "r = [e0, e1, e2, e3, e4, e5 :: real]"
proof -
  from assms obtain e0 r1 where "r = e0 # r1" "length r1 = 5" by (cases r) auto
  moreover then obtain e1 r2 where "r1 = e1 # r2" "length r2 = 4" by (cases r1) auto
  moreover then obtain e2 r3 where "r2 = e2 # r3" "length r3 = 3" by (cases r2) auto
  moreover then obtain e3 r4 where "r3 = e3 # r4" "length r4 = 2" by (cases r3) auto
  moreover then obtain e4 r5 where "r4 = e4 # r5" "length r5 = 1" by (cases r4) auto
  moreover then obtain e5 where "r5 = [e5]" by (cases r5) auto
  ultimately show thesis using that by blast
qed

lemma Transpose_1x6:
  "MatMN_Transpose [[e0, e1, e2, e3, e4, e5]] = [[e0], [e1], [e2], [e3], [e4], [e5]]"
  by (simp add: MatMN_Transpose_def)

lemma Transpose_2x6:
  "MatMN_Transpose [[e0, e1, e2, e3, e4, e5], [f0, f1, f2, f3, f4, f5]] =
     [[e0, f0], [e1, f1], [e2, f2], [e3, f3], [e4, f4], [e5, f5]]"
  by (simp add: MatMN_Transpose_def)



text \<open>What the four impulse calls leave in the two bodies, when the bodies are distinct.\<close>

lemma ApplyImpulses_at:
  assumes "ha \<noteq> hb"
  shows "ApplyImpulses E ha hb l bs ha =
           ApplyImpulseAngular E (ApplyImpulseLinear E (bs ha) \<lparr>x = l ! 0, y = l ! 1\<rparr>) (l ! 2)"
    and "ApplyImpulses E ha hb l bs hb =
           ApplyImpulseAngular E (ApplyImpulseLinear E (bs hb) \<lparr>x = l ! 3, y = l ! 4\<rparr>) (l ! 5)"
  using assms by (simp_all add: ApplyImpulses_def Let_def)

section \<open>Joint constraint: the parts of the state after PreSolve\<close>

lemma JointConstraint_sized_cases:
  assumes "JointConstraint_sized c"
  obtains e0 e1 e2 e3 e4 e5 l0 where
    "JointConstraint.jacobian c = [[e0, e1, e2, e3, e4, e5]]" "JointConstraint.cachedLambda c = [l0]"
proof -
  from assms obtain r where r: "JointConstraint.jacobian c = [r]" "length r = 6"
    by (auto simp: JointConstraint_sized_def map_eq_Cons_conv)
  from assms obtain l0 where l: "JointConstraint.cachedLambda c = [l0]"
    by (auto simp: JointConstraint_sized_def length_Suc_conv)
  from r(2) obtain e0 e1 e2 e3 e4 e5 where "r = [e0, e1, e2, e3, e4, e5]" by (rule length6_cases)
  with r l show thesis using that by blast
qed

lemma JointConstraint_jacobian_after_PreSolve:
  assumes "JointConstraint_sized c"
  shows "JointConstraint.jacobian (snd (JointConstraint_PreSolve E dt (bs, c))) =
     (let pa = LocalSpaceToWorldSpace E (bs (a c)) (aPoint c);
          pb = LocalSpaceToWorldSpace E (bs (b c)) (bPoint c);
          ra = Vec2_sub pa (position (bs (a c)));
          rb = Vec2_sub pb (position (bs (b c)))
      in [[2 * x (Vec2_sub pa pb), 2 * y (Vec2_sub pa pb), 2 * Vec2_Cross ra (Vec2_sub pa pb),
           2 * x (Vec2_sub pb pa), 2 * y (Vec2_sub pb pa), 2 * Vec2_Cross rb (Vec2_sub pb pa)]])"
proof -
  from assms obtain e0 e1 e2 e3 e4 e5 l0 where
    "JointConstraint.jacobian c = [[e0, e1, e2, e3, e4, e5]]" by (rule JointConstraint_sized_cases)
  then show ?thesis
    by (simp add: JointConstraint_PreSolve_def Let_def MatMN_Zero_def MatMN_set_def Vec2_scale_def)
qed

lemma JointConstraint_PreSolve_fst:
  "fst (JointConstraint_PreSolve E dt (bs, c)) =
     ApplyImpulses E (a c) (b c)
       (MatMN_mul_VecN (MatMN_Transpose (JointConstraint.jacobian (snd (JointConstraint_PreSolve E dt (bs, c)))))
          (JointConstraint.cachedLambda c)) bs"
  by (simp add: JointConstraint_PreSolve_def Let_def)

lemma JointConstraint_bias_after_PreSolve:
  "JointConstraint.bias (snd (JointConstraint_PreSolve E dt (bs, c))) =
     (let pa = LocalSpaceToWorldSpace E (bs (a c)) (aPoint c);
          pb = LocalSpaceToWorldSpace E (bs (b c)) (bPoint c);
          d = Vec2_sub pb pa
      in (0.1 / dt) * max 0 ((x d)\<^sup>2 + (y d)\<^sup>2 - 0.01))"
  by (simp add: JointConstraint_PreSolve_def Let_def Vec2_Dot_def power2_eq_square)

text \<open>\<^verbatim>\<open>PreSolve\<close> writes the Jacobian and the bias only.\<close>

lemma JointConstraint_PreSolve_rest:
  "JointConstraint.cachedLambda (snd (JointConstraint_PreSolve E dt (bs, c))) = JointConstraint.cachedLambda c"
  "a (snd (JointConstraint_PreSolve E dt (bs, c))) = a c"
  "b (snd (JointConstraint_PreSolve E dt (bs, c))) = b c"
  "aPoint (snd (JointConstraint_PreSolve E dt (bs, c))) = aPoint c"
  "bPoint (snd (JointConstraint_PreSolve E dt (bs, c))) = bPoint c"
  by (simp_all add: JointConstraint_PreSolve_def Let_def)

text \<open>\<^verbatim>\<open>PreSolve\<close> and \<^verbatim>\<open>Solve\<close> keep the sizes of a joint constraint.\<close>

lemma JointConstraint_PreSolve_sized:
  assumes "JointConstraint_sized c"
  shows "JointConstraint_sized (snd (JointConstraint_PreSolve E dt (bs, c)))"
  using assms
  by (simp add: JointConstraint_sized_def JointConstraint_jacobian_after_PreSolve [OF assms]
      JointConstraint_PreSolve_rest Let_def)

lemma JointConstraint_Solve_sized:
  assumes "JointConstraint_sized c"
  shows "JointConstraint_sized (snd (JointConstraint_Solve E (bs, c)))"
  using assms
  by (simp add: JointConstraint_sized_def JointConstraint_Solve_def VecN_add_def Let_def)

section \<open>Penetration constraint: the parts of the state after PreSolve and Solve\<close>

lemma PenetrationConstraint_sized_length:
  "PenetrationConstraint_sized c \<Longrightarrow> length (PenetrationConstraint.cachedLambda c) = 2"
  by (simp add: PenetrationConstraint_sized_def)

lemma PenetrationConstraint_sized_cases:
  assumes "PenetrationConstraint_sized c"
  obtains e0 e1 e2 e3 e4 e5 f0 f1 f2 f3 f4 f5 l0 l1 where
    "PenetrationConstraint.jacobian c = [[e0, e1, e2, e3, e4, e5], [f0, f1, f2, f3, f4, f5]]"
    "PenetrationConstraint.cachedLambda c = [l0, l1]"
proof -
  from assms obtain r q where r: "PenetrationConstraint.jacobian c = [r, q]" "length r = 6" "length q = 6"
    by (auto simp: PenetrationConstraint_sized_def map_eq_Cons_conv)
  from assms obtain l0 l1 where l: "PenetrationConstraint.cachedLambda c = [l0, l1]"
    by (auto simp: PenetrationConstraint_sized_def length_Suc_conv numeral_2_eq_2)
  from r(2) obtain e0 e1 e2 e3 e4 e5 where "r = [e0, e1, e2, e3, e4, e5]" by (rule length6_cases)
  moreover from r(3) obtain f0 f1 f2 f3 f4 f5 where "q = [f0, f1, f2, f3, f4, f5]" by (rule length6_cases)
  ultimately show thesis using r l that by blast
qed

lemma PenetrationConstraint_Jacobian_eq:
  assumes "PenetrationConstraint_sized c"
  shows "PenetrationConstraint_Jacobian E bs c =
     (let pa = LocalSpaceToWorldSpace E (bs (a c)) (aPoint c);
          pb = LocalSpaceToWorldSpace E (bs (b c)) (bPoint c);
          n = LocalSpaceToWorldSpace E (bs (a c)) (normal c);
          ra = Vec2_sub pa (position (bs (a c)));
          rb = Vec2_sub pb (position (bs (b c)));
          t = Normal E n
      in [[- x n, - y n, - Vec2_Cross ra n, x n, y n, Vec2_Cross rb n],
          if 0 < max (Body.friction (bs (a c))) (Body.friction (bs (b c)))
          then [- x t, - y t, - Vec2_Cross ra t, x t, y t, Vec2_Cross rb t]
          else [0, 0, 0, 0, 0, 0]])"
proof -
  from assms obtain e0 e1 e2 e3 e4 e5 f0 f1 f2 f3 f4 f5 where
    "PenetrationConstraint.jacobian c = [[e0, e1, e2, e3, e4, e5], [f0, f1, f2, f3, f4, f5]]"
    by (rule PenetrationConstraint_sized_cases)
  then show ?thesis
    by (simp add: PenetrationConstraint_Jacobian_def Let_def MatMN_Zero_def MatMN_set_def Vec2_neg_def)
qed

lemma PenetrationConstraint_Jacobian_lengths:
  assumes "PenetrationConstraint_sized c"
  shows "map length (PenetrationConstraint_Jacobian E bs c) = [6, 6]"
  by (simp add: PenetrationConstraint_Jacobian_eq [OF assms] Let_def)

lemma PenetrationConstraint_PreSolve_fst:
  "fst (PenetrationConstraint_PreSolve E dt (bs, c)) =
     ApplyImpulses E (a c) (b c)
       (MatMN_mul_VecN (MatMN_Transpose (PenetrationConstraint_Jacobian E bs c))
          (PenetrationConstraint.cachedLambda c)) bs"
  by (simp add: PenetrationConstraint_PreSolve_def Let_def)

lemma PenetrationConstraint_PreSolve_snd:
  "snd (PenetrationConstraint_PreSolve E dt (bs, c)) =
     c\<lparr>PenetrationConstraint.jacobian := PenetrationConstraint_Jacobian E bs c,
       PenetrationConstraint.friction := max (Body.friction (bs (a c))) (Body.friction (bs (b c))),
       PenetrationConstraint.bias := PenetrationConstraint.bias (snd (PenetrationConstraint_PreSolve E dt (bs, c)))\<rparr>"
  by (simp add: PenetrationConstraint_PreSolve_def Let_def)

lemma PenetrationConstraint_bias_after_PreSolve:
  "PenetrationConstraint.bias (snd (PenetrationConstraint_PreSolve E dt (bs, c))) =
     (let bs' = fst (PenetrationConstraint_PreSolve E dt (bs, c));
          pa = LocalSpaceToWorldSpace E (bs (a c)) (aPoint c);
          pb = LocalSpaceToWorldSpace E (bs (b c)) (bPoint c);
          n = LocalSpaceToWorldSpace E (bs (a c)) (normal c);
          ra = Vec2_sub pa (position (bs (a c)));
          rb = Vec2_sub pb (position (bs (b c)));
          A = bs' (a c); B = bs' (b c);
          e = min (restitution A) (restitution B);
          va = Vec2_add (velocity A) \<lparr>x = - angularVelocity A * y ra, y = angularVelocity A * x ra\<rparr>;
          vb = Vec2_add (velocity B) \<lparr>x = - angularVelocity B * y rb, y = angularVelocity B * x rb\<rparr>
      in (0.2 / dt) * min 0 (Vec2_Dot (Vec2_sub pb pa) (Vec2_neg n) + 0.01) +
         e * Vec2_Dot (Vec2_sub va vb) n)"
  by (simp add: PenetrationConstraint_PreSolve_def Let_def)

lemma PenetrationConstraint_PreSolve_sized:
  assumes "PenetrationConstraint_sized c"
  shows "PenetrationConstraint_sized (snd (PenetrationConstraint_PreSolve E dt (bs, c)))"
  using assms PenetrationConstraint_Jacobian_lengths [OF assms, of E bs]
  by (simp add: PenetrationConstraint_sized_def PenetrationConstraint_PreSolve_def Let_def)

text \<open>The accumulated impulse after the clamp of line 201, componentwise.\<close>

lemma PenetrationConstraint_accumulated_eq:
  assumes "length (PenetrationConstraint.cachedLambda c) = 2"
  shows "PenetrationConstraint_accumulated c lambda =
     [max 0 (PenetrationConstraint.cachedLambda c ! 0 + lambda ! 0),
      PenetrationConstraint.cachedLambda c ! 1 + lambda ! 1]"
proof -
  from assms obtain l0 l1 where "PenetrationConstraint.cachedLambda c = [l0, l1]"
    by (auto simp: length_Suc_conv numeral_2_eq_2)
  then show ?thesis
    by (simp add: PenetrationConstraint_accumulated_def VecN_add_def Let_def max_def)
qed

lemma PenetrationConstraint_maxFriction_eq:
  assumes "length (PenetrationConstraint.cachedLambda c) = 2"
  shows "PenetrationConstraint_maxFriction c lambda =
     max 0 (PenetrationConstraint.cachedLambda c ! 0 + lambda ! 0) * PenetrationConstraint.friction c"
  using assms by (simp add: PenetrationConstraint_maxFriction_def PenetrationConstraint_accumulated_eq)

lemma PenetrationConstraint_maxFriction_nonneg:
  assumes "length (PenetrationConstraint.cachedLambda c) = 2" "0 < PenetrationConstraint.friction c"
  shows "0 \<le> PenetrationConstraint_maxFriction c lambda"
  using assms by (simp add: PenetrationConstraint_maxFriction_eq)

text \<open>
  The clamps never fail and leave the vector below: over an interval \<open>[- m, m]\<close> with
  \<open>0 \<le> m\<close>, \<^verbatim>\<open>std::clamp\<close> is \<open>max (- m) (min m v)\<close>.
\<close>

lemma PenetrationConstraint_clamped_eq:
  assumes "length (PenetrationConstraint.cachedLambda c) = 2"
  shows "PenetrationConstraint_clamped c lambda =
     Some [max 0 (PenetrationConstraint.cachedLambda c ! 0 + lambda ! 0),
           (if 0 < PenetrationConstraint.friction c
            then max (- PenetrationConstraint_maxFriction c lambda)
                   (min (PenetrationConstraint_maxFriction c lambda)
                      (PenetrationConstraint.cachedLambda c ! 1 + lambda ! 1))
            else PenetrationConstraint.cachedLambda c ! 1 + lambda ! 1)]"
proof (cases "0 < PenetrationConstraint.friction c")
  case True
  with assms have "0 \<le> PenetrationConstraint_maxFriction c lambda"
    by (rule PenetrationConstraint_maxFriction_nonneg)
  with True show ?thesis
    by (simp add: PenetrationConstraint_clamped_def PenetrationConstraint_accumulated_eq [OF assms]
        std_clamp_def Let_def max_def min_def)
next
  case False
  then show ?thesis
    by (simp add: PenetrationConstraint_clamped_def PenetrationConstraint_accumulated_eq [OF assms] Let_def)
qed

lemma PenetrationConstraint_Solve_eq:
  assumes "PenetrationConstraint_clamped c (PenetrationConstraint_solved E bs c) = Some l"
  shows "PenetrationConstraint_Solve E (bs, c) =
     Some (ApplyImpulses E (a c) (b c)
             (MatMN_mul_VecN (MatMN_Transpose (PenetrationConstraint.jacobian c))
                (VecN_sub l (PenetrationConstraint.cachedLambda c))) bs,
           c\<lparr>PenetrationConstraint.cachedLambda := l\<rparr>)"
  using assms by (simp add: PenetrationConstraint_Solve_def Let_def)


text \<open>\<^verbatim>\<open>Solve\<close> keeps the sizes of a penetration constraint, as \<^verbatim>\<open>PreSolve\<close> does.\<close>

lemma PenetrationConstraint_Solve_sized:
  assumes "PenetrationConstraint_sized c"
  shows "\<exists>bs' c'. PenetrationConstraint_Solve E (bs, c) = Some (bs', c') \<and> PenetrationConstraint_sized c'"
proof -
  from assms have len: "length (PenetrationConstraint.cachedLambda c) = 2"
    by (rule PenetrationConstraint_sized_length)
  note cl = PenetrationConstraint_clamped_eq [OF len, of "PenetrationConstraint_solved E bs c"]
  show ?thesis
    unfolding PenetrationConstraint_Solve_eq [OF cl]
    using assms by (simp add: PenetrationConstraint_sized_def)
qed

section \<open>The clamps of Solve on floats: the value they leave\<close>

lemma PenetrationConstraint_Solve_accumulated_eq:
  assumes "length cl = 2"
  shows "PenetrationConstraint_Solve_accumulated cl lambda =
     [if float_less (float_add (cl ! 0) (lambda ! 0)) (Finite 0) then Finite 0
      else float_add (cl ! 0) (lambda ! 0),
      float_add (cl ! 1) (lambda ! 1)]"
proof -
  from assms obtain l0 l1 where "cl = [l0, l1]"
    by (auto simp: length_Suc_conv numeral_2_eq_2)
  then show ?thesis
    by (simp add: PenetrationConstraint_Solve_accumulated_def Let_def)
qed

text \<open>The clamp of line 201 removes the negative values and keeps a NaN.\<close>

lemma float_clamped_at_zero:
  "\<not> float_less (if float_less s (Finite 0) then Finite 0 else s) (Finite 0)"
  "float_le (Finite 0) (if float_less s (Finite 0) then Finite 0 else s) \<longleftrightarrow> s \<noteq> NaN"
  by (cases s; simp)+

text \<open>
  The product of line 204, for a positive friction: it is NaN for a NaN impulse and for
  the impulse 0 with an infinite friction, and otherwise it is not below its opposite.
\<close>

lemma float_maxFriction_cases:
  assumes "float_less (Finite 0) fr"
  shows "\<not> float_less (float_mul (if float_less s (Finite 0) then Finite 0 else s) fr)
            (float_neg (float_mul (if float_less s (Finite 0) then Finite 0 else s) fr))"
    and "float_le (float_neg (float_mul (if float_less s (Finite 0) then Finite 0 else s) fr))
            (float_mul (if float_less s (Finite 0) then Finite 0 else s) fr) \<longleftrightarrow>
         float_mul (if float_less s (Finite 0) then Finite 0 else s) fr \<noteq> NaN"
    and "float_mul (if float_less s (Finite 0) then Finite 0 else s) fr = NaN \<longleftrightarrow>
         s = NaN \<or> (\<not> float_less (Finite 0) s \<and> fr = PlusInfinity)"
  using assms by (cases s; cases fr; simp add: zero_less_mult_iff mult_less_0_iff not_less; fail)+

text \<open>
  \<^verbatim>\<open>std::clamp\<close> between \<open>- m\<close> and \<open>m\<close>: the result is within the bounds exactly when
  neither \<open>m\<close> nor the value is NaN, provided \<open>m\<close> is not below \<open>- m\<close>.
\<close>

lemma float_clamp_symmetric:
  assumes "\<not> float_less m (float_neg m)"
  shows "float_clamp v (float_neg m) m =
           Some (if float_less v (float_neg m) then float_neg m else if float_less m v then m else v)"
    and "float_le (float_abs (if float_less v (float_neg m) then float_neg m
                              else if float_less m v then m else v)) m \<longleftrightarrow>
         m \<noteq> NaN \<and> v \<noteq> NaN"
proof -
  from assms show "float_clamp v (float_neg m) m =
      Some (if float_less v (float_neg m) then float_neg m else if float_less m v then m else v)"
    by (simp add: float_clamp_def)
  from assms show "float_le (float_abs (if float_less v (float_neg m) then float_neg m
                              else if float_less m v then m else v)) m \<longleftrightarrow>
         m \<noteq> NaN \<and> v \<noteq> NaN"
    by (cases m; cases v; simp; linarith)
qed

lemma PenetrationConstraint_Solve_cachedLambda_eq:
  assumes "length cl = 2"
  shows "PenetrationConstraint_Solve_cachedLambda fr cl lambda =
     (let s0 = float_add (cl ! 0) (lambda ! 0);
          s1 = float_add (cl ! 1) (lambda ! 1);
          n0 = (if float_less s0 (Finite 0) then Finite 0 else s0);
          m = float_mul n0 fr
      in Some [n0, if float_less (Finite 0) fr
                   then (if float_less s1 (float_neg m) then float_neg m
                         else if float_less m s1 then m else s1)
                   else s1])"
proof (cases "float_less (Finite 0) fr")
  case True
  then show ?thesis
    by (simp add: PenetrationConstraint_Solve_cachedLambda_def PenetrationConstraint_Solve_maxFriction_def
        PenetrationConstraint_Solve_accumulated_eq [OF assms] Let_def
        float_clamp_symmetric(1) [OF float_maxFriction_cases(1) [OF True]])
next
  case False
  then show ?thesis
    by (simp add: PenetrationConstraint_Solve_cachedLambda_def
        PenetrationConstraint_Solve_accumulated_eq [OF assms] Let_def)
qed

lemma PenetrationConstraint_Solve_maxFriction_eq:
  assumes "length cl = 2"
  shows "PenetrationConstraint_Solve_maxFriction fr cl lambda =
     float_mul (if float_less (float_add (cl ! 0) (lambda ! 0)) (Finite 0) then Finite 0
                else float_add (cl ! 0) (lambda ! 0)) fr"
  by (simp add: PenetrationConstraint_Solve_maxFriction_def PenetrationConstraint_Solve_accumulated_eq [OF assms])

text \<open>
  On finite values the clamps of \<^verbatim>\<open>Solve\<close> on \<^verbatim>\<open>float\<close> are those of the model over
  the reals: the \<^verbatim>\<open>cachedLambda\<close> that \<^verbatim>\<open>PenetrationConstraint_Solve\<close> returns is the
  one \<open>PenetrationConstraint_Solve_cachedLambda\<close> computes.
\<close>

lemma PenetrationConstraint_Solve_cachedLambda_finite:
  assumes "PenetrationConstraint_sized c"
  shows "\<exists>bs' c'. PenetrationConstraint_Solve E (bs, c) = Some (bs', c') \<and>
           PenetrationConstraint_Solve_cachedLambda (Finite (PenetrationConstraint.friction c))
             (map Finite (PenetrationConstraint.cachedLambda c))
             [Finite (PenetrationConstraint_solved E bs c ! 0), Finite (PenetrationConstraint_solved E bs c ! 1)] =
           Some (map Finite (PenetrationConstraint.cachedLambda c'))"
proof -
  let ?lambda = "PenetrationConstraint_solved E bs c"
  from assms obtain l0 l1 where cl: "PenetrationConstraint.cachedLambda c = [l0, l1]"
    by (auto simp: PenetrationConstraint_sized_def length_Suc_conv numeral_2_eq_2)
  then have len: "length (PenetrationConstraint.cachedLambda c) = 2" by simp
  have len': "length (map Finite (PenetrationConstraint.cachedLambda c)) = 2"
    using len by simp
  note real = PenetrationConstraint_clamped_eq [OF len, of ?lambda]
  have normal: "(if float_less (Finite u) (Finite 0) then Finite 0 else Finite u) = Finite (max 0 u)"
    for u :: real
    by (simp add: max_def)
  have tangent: "(if float_less (Finite v) (float_neg (Finite m)) then float_neg (Finite m)
       else if float_less (Finite m) (Finite v) then Finite m else Finite v) =
      Finite (max (- m) (min m v))"
    if "0 \<le> m" for m v :: real
    using that by (simp add: max_def min_def)
  have m: "0 \<le> max 0 (l0 + ?lambda ! 0) * PenetrationConstraint.friction c"
    if "0 < PenetrationConstraint.friction c"
    using that by simp
  show ?thesis
  proof (cases "0 < PenetrationConstraint.friction c")
    case True
    show ?thesis
      unfolding PenetrationConstraint_Solve_eq [OF real]
        PenetrationConstraint_Solve_cachedLambda_eq [OF len']
      using True
      by (simp add: cl Let_def PenetrationConstraint_maxFriction_eq [OF len] normal
          tangent [OF m [OF True]])
  next
    case False
    show ?thesis
      unfolding PenetrationConstraint_Solve_eq [OF real]
        PenetrationConstraint_Solve_cachedLambda_eq [OF len']
      using False
      by (simp add: cl Let_def normal)
  qed
qed

text \<open>
  On finite values with a positive friction the clamps leave a normal impulse that is
  \<open>\<ge> 0\<close> and a tangential impulse within the friction bound.
\<close>

lemma PenetrationConstraint_Solve_cachedLambda_finite_values:
  assumes "0 < f"
  shows "\<exists>n0 n1. PenetrationConstraint_Solve_cachedLambda (Finite f) [Finite l0, Finite l1]
             [Finite d0, Finite d1] = Some [Finite n0, Finite n1] \<and>
           0 \<le> n0 \<and> \<bar>n1\<bar> \<le> n0 * f"
proof -
  have len: "length [Finite l0, Finite l1] = 2" by simp
  have m: "0 \<le> max 0 (l0 + d0) * f"
    using assms by simp
  have "PenetrationConstraint_Solve_cachedLambda (Finite f) [Finite l0, Finite l1]
      [Finite d0, Finite d1] =
      Some [Finite (max 0 (l0 + d0)),
            Finite (max (- (max 0 (l0 + d0) * f)) (min (max 0 (l0 + d0) * f) (l1 + d1)))]"
  proof -
    have normal: "(if float_less (Finite u) (Finite 0) then Finite 0 else Finite u) = Finite (max 0 u)"
      for u :: real
      by (simp add: max_def)
    have tangent: "(if float_less (Finite v) (float_neg (Finite k)) then float_neg (Finite k)
         else if float_less (Finite k) (Finite v) then Finite k else Finite v) =
        Finite (max (- k) (min k v))"
      if "0 \<le> k" for k v :: real
      using that by (simp add: max_def min_def)
    show ?thesis
      unfolding PenetrationConstraint_Solve_cachedLambda_eq [OF len]
      using assms by (simp add: Let_def normal tangent [OF m])
  qed
  moreover have "\<bar>max (- (max 0 (l0 + d0) * f)) (min (max 0 (l0 + d0) * f) (l1 + d1))\<bar>
      \<le> max 0 (l0 + d0) * f"
    using m by (simp add: max_def min_def abs_if)
  ultimately show ?thesis by force
qed

section \<open>PreSolve and the accumulated impulse\<close>

text \<open>
  \<^verbatim>\<open>PreSolve\<close> reads \<^verbatim>\<open>cachedLambda\<close> and does not write it. A second \<^verbatim>\<open>PreSolve\<close>
  with no \<^verbatim>\<open>Solve\<close> in between therefore applies the impulses of the same
  \<^verbatim>\<open>cachedLambda\<close> once more, to the bodies as the first call left them.
\<close>

lemma PenetrationConstraint_PreSolve_cachedLambda:
  "PenetrationConstraint.cachedLambda (snd (PenetrationConstraint_PreSolve E dt s)) =
     PenetrationConstraint.cachedLambda (snd s)"
  by (simp add: PenetrationConstraint_PreSolve_def Let_def)

lemma JointConstraint_PreSolve_cachedLambda:
  "JointConstraint.cachedLambda (snd (JointConstraint_PreSolve E dt s)) =
     JointConstraint.cachedLambda (snd s)"
  by (simp add: JointConstraint_PreSolve_def Let_def)

lemma PenetrationConstraint_PreSolve_twice:
  "fst (PenetrationConstraint_PreSolve E dt (PenetrationConstraint_PreSolve E dt (bs, c))) =
     (let s1 = PenetrationConstraint_PreSolve E dt (bs, c)
      in ApplyImpulses E (a c) (b c)
           (MatMN_mul_VecN (MatMN_Transpose (PenetrationConstraint_Jacobian E (fst s1) (snd s1)))
              (PenetrationConstraint.cachedLambda c)) (fst s1))"
proof -
  let ?s1 = "PenetrationConstraint_PreSolve E dt (bs, c)"
  have "a (snd ?s1) = a c" "b (snd ?s1) = b c"
    "PenetrationConstraint.cachedLambda (snd ?s1) = PenetrationConstraint.cachedLambda c"
    by (simp_all add: PenetrationConstraint_PreSolve_def Let_def)
  with PenetrationConstraint_PreSolve_fst [of E dt "fst ?s1" "snd ?s1"] show ?thesis
    by (simp add: Let_def)
qed

lemma JointConstraint_PreSolve_twice:
  "fst (JointConstraint_PreSolve E dt (JointConstraint_PreSolve E dt (bs, c))) =
     (let s1 = JointConstraint_PreSolve E dt (bs, c)
      in ApplyImpulses E (a c) (b c)
           (MatMN_mul_VecN
              (MatMN_Transpose (JointConstraint.jacobian (snd (JointConstraint_PreSolve E dt s1))))
              (JointConstraint.cachedLambda c)) (fst s1))"
proof -
  let ?s1 = "JointConstraint_PreSolve E dt (bs, c)"
  from JointConstraint_PreSolve_fst [of E dt "fst ?s1" "snd ?s1"] show ?thesis
    by (simp add: Let_def JointConstraint_PreSolve_rest)
qed

section \<open>The reference instance on the concrete bodies\<close>

subsection \<open>The contact of the approaching bodies\<close>

lemma contact_sized: "PenetrationConstraint_sized contact"
  by (simp add: PenetrationConstraint_sized_def contact_def)

lemma contact_Jacobian:
  "PenetrationConstraint_Jacobian Reference scene contact =
     [[- 1, 0, 0, 1, 0, 0], [0, 1, 1, 0, - 1, 9/10]]"
  unfolding PenetrationConstraint_Jacobian_eq [OF contact_sized]
  by (simp add: Let_def ref_defs vec_defs scene_def contact_def)

lemma contact_started_fst:
  "fst contact_started 0 = (scene 0)\<lparr>velocity := \<lparr>x = 0, y = 1/4\<rparr>, angularVelocity := 1/4\<rparr>"
  "fst contact_started (Suc 0) = (scene 1)\<lparr>velocity := \<lparr>x = 0, y = - 1/4\<rparr>, angularVelocity := 9/40\<rparr>"
  unfolding contact_started_def PenetrationConstraint_PreSolve_fst contact_Jacobian
  by (simp_all add: ApplyImpulses_at Transpose_2x6 MatMN_mul_VecN_def VecN_Dot_def contact_def
      ref_defs vec_defs scene_def)

lemma contact_started_snd:
  "snd contact_started =
     contact\<lparr>PenetrationConstraint.jacobian := [[- 1, 0, 0, 1, 0, 0], [0, 1, 1, 0, - 1, 9/10]],
       PenetrationConstraint.friction := 1/2, PenetrationConstraint.bias := - 9/50\<rparr>"
proof -
  have "PenetrationConstraint.bias (snd contact_started) = - 9/50"
    using PenetrationConstraint_bias_after_PreSolve [of Reference "1/10" scene contact]
    unfolding contact_started_def [symmetric] Let_def
    by (simp add: contact_started_fst contact_def ref_defs vec_defs scene_def)
  moreover have "snd contact_started =
      contact\<lparr>PenetrationConstraint.jacobian := [[- 1, 0, 0, 1, 0, 0], [0, 1, 1, 0, - 1, 9/10]],
        PenetrationConstraint.friction := 1/2,
        PenetrationConstraint.bias := PenetrationConstraint.bias (snd contact_started)\<rparr>"
    unfolding contact_started_def
    apply (subst PenetrationConstraint_PreSolve_snd)
    apply (simp add: contact_Jacobian)
    apply (simp add: contact_def scene_def)
    done
  ultimately show ?thesis by simp
qed

lemma contact_started_sized: "PenetrationConstraint_sized (snd contact_started)"
  unfolding contact_started_def using contact_sized by (rule PenetrationConstraint_PreSolve_sized)

lemma contact_started_friction: "PenetrationConstraint.friction (snd contact_started) = 1/2"
  by (simp add: contact_started_snd)

lemma contact_started_cachedLambda: "PenetrationConstraint.cachedLambda (snd contact_started) = [1, 1/4]"
  by (simp add: contact_started_snd contact_def)

text \<open>The solver's \<open>lambda\<close> on this contact, and the accumulated impulse after the clamps.\<close>

lemma contact_solved:
  "PenetrationConstraint_solved Reference (fst contact_started) (snd contact_started) = [9/100, - 1/4]"
  apply (simp add: PenetrationConstraint_solved_def Let_def contact_started_snd GetVelocities_def GetInvM_def)
  apply (simp add: contact_def Transpose_2x6 contact_started_fst)
  apply (simp add: scene_def MatMN_mul_def MatMN_mul_VecN_def MatMN_Transpose_def VecN_Dot_def VecN_scale_def)
  apply (simp add: Reference_def MatMN_SolveGaussSeidel_def GaussSeidel_row_def VecN_Dot_def)
  done

lemma contact_clamped:
  "PenetrationConstraint_clamped (snd contact_started)
     (PenetrationConstraint_solved Reference (fst contact_started) (snd contact_started)) =
     Some [109/100, 0]"
  unfolding contact_solved
  by (simp add: PenetrationConstraint_clamped_eq [OF PenetrationConstraint_sized_length [OF contact_started_sized]]
      PenetrationConstraint_maxFriction_eq [OF PenetrationConstraint_sized_length [OF contact_started_sized]]
      contact_started_cachedLambda contact_started_friction)

text \<open>
  The bias is computed from the velocities after the warm start: with the velocities that
  \<^verbatim>\<open>PreSolve\<close> found, the same formula gives 8/25 on this contact, and the stored bias
  is - 9/50.
\<close>

lemma contact_bias_from_entry_velocities:
  "(let pa = LocalSpaceToWorldSpace Reference (scene (a contact)) (aPoint contact);
        pb = LocalSpaceToWorldSpace Reference (scene (b contact)) (bPoint contact);
        n = LocalSpaceToWorldSpace Reference (scene (a contact)) (normal contact);
        ra = Vec2_sub pa (position (scene (a contact)));
        rb = Vec2_sub pb (position (scene (b contact)));
        A = scene (a contact); B = scene (b contact);
        e = min (restitution A) (restitution B);
        va = Vec2_add (velocity A) \<lparr>x = - angularVelocity A * y ra, y = angularVelocity A * x ra\<rparr>;
        vb = Vec2_add (velocity B) \<lparr>x = - angularVelocity B * y rb, y = angularVelocity B * x rb\<rparr>
    in (0.2 / (1/10)) * min 0 (Vec2_Dot (Vec2_sub pb pa) (Vec2_neg n) + 0.01) +
       e * Vec2_Dot (Vec2_sub va vb) n) = (8/25 :: real)"
  by (simp add: Let_def contact_def ref_defs vec_defs scene_def)

subsection \<open>The contact of the bodies that move apart\<close>

lemma contact_fresh_sized: "PenetrationConstraint_sized contact_fresh"
  by (simp add: PenetrationConstraint_sized_def contact_fresh_def contact_def)

lemma apart_Jacobian:
  "PenetrationConstraint_Jacobian Reference scene_apart contact_fresh =
     [[- 1, 0, 0, 1, 0, 0], [0, 1, 1, 0, - 1, 9/10]]"
  unfolding PenetrationConstraint_Jacobian_eq [OF contact_fresh_sized]
  by (simp add: Let_def ref_defs vec_defs scene_apart_def scene_def contact_fresh_def contact_def)

lemma apart_started_fst:
  "fst apart_started 0 = scene_apart 0" "fst apart_started (Suc 0) = scene_apart 1"
  unfolding apart_started_def PenetrationConstraint_PreSolve_fst apart_Jacobian
  by (simp_all add: ApplyImpulses_at Transpose_2x6 MatMN_mul_VecN_def VecN_Dot_def contact_fresh_def
      contact_def ref_defs vec_defs scene_apart_def scene_def)

lemma apart_started_snd:
  "snd apart_started =
     contact_fresh\<lparr>PenetrationConstraint.jacobian := [[- 1, 0, 0, 1, 0, 0], [0, 1, 1, 0, - 1, 9/10]],
       PenetrationConstraint.friction := 1/2, PenetrationConstraint.bias := - 17/25\<rparr>"
proof -
  have "PenetrationConstraint.bias (snd apart_started) = - 17/25"
    using PenetrationConstraint_bias_after_PreSolve [of Reference "1/10" scene_apart contact_fresh]
    unfolding apart_started_def [symmetric] Let_def
    by (simp add: apart_started_fst contact_fresh_def contact_def ref_defs vec_defs scene_apart_def scene_def)
  moreover have "snd apart_started =
      contact_fresh\<lparr>PenetrationConstraint.jacobian := [[- 1, 0, 0, 1, 0, 0], [0, 1, 1, 0, - 1, 9/10]],
        PenetrationConstraint.friction := 1/2,
        PenetrationConstraint.bias := PenetrationConstraint.bias (snd apart_started)\<rparr>"
    unfolding apart_started_def
    apply (subst PenetrationConstraint_PreSolve_snd)
    apply (simp add: apart_Jacobian)
    apply (simp add: contact_fresh_def contact_def scene_apart_def scene_def)
    done
  ultimately show ?thesis by simp
qed

lemma apart_started_sized: "PenetrationConstraint_sized (snd apart_started)"
  unfolding apart_started_def using contact_fresh_sized by (rule PenetrationConstraint_PreSolve_sized)

lemma apart_solved:
  "PenetrationConstraint_solved Reference (fst apart_started) (snd apart_started) = [- 33/50, 0]"
  apply (simp add: PenetrationConstraint_solved_def Let_def apart_started_snd GetVelocities_def GetInvM_def)
  apply (simp add: contact_fresh_def contact_def Transpose_2x6 apart_started_fst)
  apply (simp add: scene_apart_def scene_def vec_defs MatMN_mul_def MatMN_mul_VecN_def MatMN_Transpose_def
      VecN_Dot_def VecN_scale_def)
  apply (simp add: Reference_def MatMN_SolveGaussSeidel_def GaussSeidel_row_def VecN_Dot_def)
  done

lemma apart_clamped:
  "PenetrationConstraint_clamped (snd apart_started)
     (PenetrationConstraint_solved Reference (fst apart_started) (snd apart_started)) = Some [0, 0]"
  unfolding apart_solved
  by (simp add: PenetrationConstraint_clamped_eq [OF PenetrationConstraint_sized_length [OF apart_started_sized]]
      PenetrationConstraint_maxFriction_eq [OF PenetrationConstraint_sized_length [OF apart_started_sized]])
    (simp add: apart_started_snd contact_fresh_def)

text \<open>
  The solver asks for a pull (\<open>lambda ! 0 < 0\<close>); the clamp leaves the accumulated impulse
  at 0, and \<^verbatim>\<open>Solve\<close> leaves the velocity of body 0 as it was. The solver's own \<open>lambda\<close>
  would have changed it.
\<close>

lemma apart_Solve_velocity:
  "map_option (\<lambda>s. velocity (fst s 0))
     (PenetrationConstraint_Solve Reference (fst apart_started, snd apart_started)) =
     Some \<lparr>x = - 1, y = 0\<rparr>"
  unfolding PenetrationConstraint_Solve_eq [OF apart_clamped]
  apply (simp add: apart_started_snd)
  apply (simp add: contact_fresh_def contact_def ApplyImpulses_at Transpose_2x6 MatMN_mul_VecN_def
      VecN_Dot_def VecN_sub_def apart_started_fst)
  apply (simp add: ref_defs vec_defs scene_apart_def scene_def)
  done

lemma apart_raw_velocity:
  "velocity (ApplyImpulses Reference (a (snd apart_started)) (b (snd apart_started))
       (MatMN_mul_VecN (MatMN_Transpose (PenetrationConstraint.jacobian (snd apart_started)))
          (PenetrationConstraint_solved Reference (fst apart_started) (snd apart_started)))
       (fst apart_started) 0) = \<lparr>x = - 17/50, y = 0\<rparr>"
  unfolding apart_solved
  apply (simp add: apart_started_snd)
  apply (simp add: contact_fresh_def contact_def ApplyImpulses_at Transpose_2x6 MatMN_mul_VecN_def
      VecN_Dot_def apart_started_fst)
  apply (simp add: ref_defs vec_defs scene_apart_def scene_def)
  done

lemma apart_raw_differs:
  "map_option fst (PenetrationConstraint_Solve Reference (fst apart_started, snd apart_started)) \<noteq>
     Some (ApplyImpulses Reference (a (snd apart_started)) (b (snd apart_started))
       (MatMN_mul_VecN (MatMN_Transpose (PenetrationConstraint.jacobian (snd apart_started)))
          (PenetrationConstraint_solved Reference (fst apart_started) (snd apart_started)))
       (fst apart_started))"
proof
  assume eq: "map_option fst (PenetrationConstraint_Solve Reference (fst apart_started, snd apart_started)) =
     Some (ApplyImpulses Reference (a (snd apart_started)) (b (snd apart_started))
       (MatMN_mul_VecN (MatMN_Transpose (PenetrationConstraint.jacobian (snd apart_started)))
          (PenetrationConstraint_solved Reference (fst apart_started) (snd apart_started)))
       (fst apart_started))"
  have "map_option (\<lambda>s. velocity (fst s 0))
          (PenetrationConstraint_Solve Reference (fst apart_started, snd apart_started)) =
        map_option (\<lambda>f. velocity (f 0))
          (map_option fst (PenetrationConstraint_Solve Reference (fst apart_started, snd apart_started)))"
    by (simp add: option.map_comp comp_def)
  also have "\<dots> = Some \<lparr>x = - 17/50, y = 0\<rparr>"
    unfolding eq by (simp add: apart_raw_velocity)
  finally show False
    unfolding apart_Solve_velocity by simp
qed

subsection \<open>The joint\<close>

lemma joint_sized: "JointConstraint_sized joint"
  by (simp add: JointConstraint_sized_def joint_def)

lemma joint_started_jacobian:
  "JointConstraint.jacobian (snd joint_started) = [[- 1, 1, 3/2, 1, - 1, 1/2]]"
  unfolding joint_started_def JointConstraint_jacobian_after_PreSolve [OF joint_sized]
  by (simp add: Let_def ref_defs vec_defs scene_def joint_def)

lemma joint_started_bias: "JointConstraint.bias (snd joint_started) = 49/100"
  unfolding joint_started_def JointConstraint_bias_after_PreSolve
  by (simp add: Let_def ref_defs vec_defs scene_def joint_def power2_eq_square)

lemma joint_started_rest:
  "JointConstraint.cachedLambda (snd joint_started) = [1/2]"
  "a (snd joint_started) = 0" "b (snd joint_started) = 1"
  unfolding joint_started_def JointConstraint_PreSolve_rest by (simp_all add: joint_def)

lemma joint_started_fst:
  "fst joint_started 0 = (scene 0)\<lparr>velocity := \<lparr>x = 1/2, y = 1/2\<rparr>, angularVelocity := 3/4\<rparr>"
  "fst joint_started (Suc 0) = (scene 1)\<lparr>velocity := \<lparr>x = - 1/2, y = - 1/2\<rparr>, angularVelocity := 1/4\<rparr>"
  unfolding JointConstraint_PreSolve_fst [of Reference "1/10" scene joint, folded joint_started_def]
    joint_started_jacobian
  by (simp_all add: joint_def ApplyImpulses_at Transpose_1x6 MatMN_mul_VecN_def VecN_Dot_def
      ref_defs vec_defs scene_def)

lemma joint_started_sized: "JointConstraint_sized (snd joint_started)"
  by (simp add: JointConstraint_sized_def joint_started_jacobian joint_started_rest)

text \<open>The solver's \<open>lambda\<close> on the joint, which is negative.\<close>

lemma joint_started_lambda:
  "SolveGaussSeidel Reference
     (MatMN_mul (MatMN_mul (JointConstraint.jacobian (snd joint_started))
                   (GetInvM (fst joint_started) (snd joint_started)))
        (MatMN_Transpose (JointConstraint.jacobian (snd joint_started))))
     ((VecN_scale (MatMN_mul_VecN (JointConstraint.jacobian (snd joint_started))
         (GetVelocities (fst joint_started) (snd joint_started))) (- 1))
        [0 := VecN_scale (MatMN_mul_VecN (JointConstraint.jacobian (snd joint_started))
                (GetVelocities (fst joint_started) (snd joint_started))) (- 1) ! 0 -
              JointConstraint.bias (snd joint_started)])
   = [- 87/325]"
  apply (simp add: joint_started_jacobian joint_started_bias GetInvM_def GetVelocities_def
      joint_started_rest joint_started_fst Transpose_1x6)
  apply (simp add: scene_def MatMN_mul_def MatMN_mul_VecN_def MatMN_Transpose_def VecN_Dot_def VecN_scale_def)
  apply (simp add: Reference_def MatMN_SolveGaussSeidel_def GaussSeidel_row_def VecN_Dot_def)
  done

section \<open>Solve of the penetration constraint\<close>

text \<open>
  C1, as stated (the accumulated normal impulse is \<open>\<ge> 0\<close> after every \<^verbatim>\<open>Solve\<close>, whatever the
  linear solver returns), fails on a NaN: line 201 tests \<^verbatim>\<open>cachedLambda[0] < 0.0f\<close>, which is
  false for a NaN, and keeps it. A NaN arrives from a solver that returns one, and from the
  sum of opposite infinities.
\<close>

theorem PenetrationConstraint_Solve_normal_impulse_NaN:
  "PenetrationConstraint_Solve_cachedLambda (Finite (1/2)) [Finite 0, Finite 0] [NaN, Finite 0] =
     Some [NaN, Finite 0] \<and>
   \<not> float_le (Finite 0) ([NaN, Finite 0] ! 0) \<and>
   PenetrationConstraint_Solve_cachedLambda (Finite 0) [PlusInfinity, Finite 0] [MinusInfinity, Finite 0] =
     Some [NaN, Finite 0]"
  by (simp add: PenetrationConstraint_Solve_cachedLambda_eq Let_def)

text \<open>
  C1, amended. For every penetration constraint (accumulated impulse of 2 components),
  every friction and every \<open>lambda\<close> of the linear solver, NaN and infinities included:
  \<^verbatim>\<open>Solve\<close> leaves a \<^verbatim>\<open>cachedLambda[0]\<close> that is never less than zero, and that is \<open>\<ge> 0\<close>
  exactly when the sum \<^verbatim>\<open>cachedLambda[0] + lambda[0]\<close> it accumulates is not NaN.
\<close>

theorem PenetrationConstraint_Solve_normal_impulse_never_negative:
  assumes "length cl = 2"
  shows "\<exists>l. PenetrationConstraint_Solve_cachedLambda fr cl lambda = Some l \<and>
           \<not> float_less (l ! 0) (Finite 0) \<and>
           (float_le (Finite 0) (l ! 0) \<longleftrightarrow> float_add (cl ! 0) (lambda ! 0) \<noteq> NaN)"
  unfolding PenetrationConstraint_Solve_cachedLambda_eq [OF assms] Let_def
  using float_clamped_at_zero [of "float_add (cl ! 0) (lambda ! 0)"]
  by simp

theorem PenetrationConstraint_Solve_normal_impulse_never_negative_witness:
  "length [Finite 1, Finite (1/4)] = 2 \<and>
   PenetrationConstraint_Solve_cachedLambda (Finite (1/2)) [Finite 1, Finite (1/4)] [Finite (- 3), Finite 2] =
     Some [Finite 0, Finite 0] \<and>
   float_add ([Finite 1, Finite (1/4)] ! 0) ([Finite (- 3), Finite 2] ! 0) = Finite (- 2) \<and>
   (\<exists>l. PenetrationConstraint_Solve_cachedLambda (Finite (1/2)) [Finite 1, Finite (1/4)] [Finite (- 3), Finite 2] =
          Some l \<and>
        \<not> float_less (l ! 0) (Finite 0) \<and> float_le (Finite 0) (l ! 0))"
proof -
  have len: "length [Finite 1, Finite (1/4)] = 2" by simp
  have run: "PenetrationConstraint_Solve_cachedLambda (Finite (1/2)) [Finite 1, Finite (1/4)]
      [Finite (- 3), Finite 2] = Some [Finite 0, Finite 0]"
    by (simp add: PenetrationConstraint_Solve_cachedLambda_eq Let_def)
  from PenetrationConstraint_Solve_normal_impulse_never_negative
    [OF len, of "Finite (1/2)" "[Finite (- 3), Finite 2]"]
  show ?thesis using run by simp
qed

text \<open>
  C2, as stated (for every input with positive friction,
  \<open>|cachedLambda[1]| \<le> cachedLambda[0] * friction\<close> after \<^verbatim>\<open>Solve\<close>), fails where the bound
  \<^verbatim>\<open>maxFriction\<close> of line 204 is NaN: \<^verbatim>\<open>std::clamp\<close> then returns its argument. With an
  infinite friction and a contact that separates, the bound is \<open>0 * \<infinity>\<close>; with a NaN from the
  solver, it is NaN as well.
\<close>

theorem PenetrationConstraint_Solve_friction_cone_NaN:
  "float_less (Finite 0) PlusInfinity \<and>
   PenetrationConstraint_Solve_cachedLambda PlusInfinity [Finite 0, Finite 0] [Finite (- 1), Finite 5] =
     Some [Finite 0, Finite 5] \<and>
   \<not> float_le (float_abs ([Finite 0, Finite 5] ! 1)) (float_mul ([Finite 0, Finite 5] ! 0) PlusInfinity) \<and>
   float_less (Finite 0) (Finite (1/2)) \<and>
   PenetrationConstraint_Solve_cachedLambda (Finite (1/2)) [Finite 0, Finite 0] [NaN, Finite 5] =
     Some [NaN, Finite 5] \<and>
   \<not> float_le (float_abs ([NaN, Finite 5] ! 1)) (float_mul ([NaN, Finite 5] ! 0) (Finite (1/2)))"
  by (simp add: PenetrationConstraint_Solve_cachedLambda_eq Let_def)

text \<open>
  C2, amended. For every penetration constraint whose friction is positive (an infinite one
  included), \<^verbatim>\<open>Solve\<close> leaves \<open>|cachedLambda[1]| \<le> cachedLambda[0] * friction\<close>, with the
  \<^verbatim>\<open>cachedLambda[0]\<close> it leaves, exactly when neither that product (the \<^verbatim>\<open>maxFriction\<close> of
  line 204) nor the sum \<^verbatim>\<open>cachedLambda[1] + lambda[1]\<close> it accumulates is NaN.
\<close>

theorem PenetrationConstraint_Solve_friction_cone_unless_NaN:
  assumes "length cl = 2" and "float_less (Finite 0) fr"
  shows "\<exists>l. PenetrationConstraint_Solve_cachedLambda fr cl lambda = Some l \<and>
           float_mul (l ! 0) fr = PenetrationConstraint_Solve_maxFriction fr cl lambda \<and>
           (float_le (float_abs (l ! 1)) (float_mul (l ! 0) fr) \<longleftrightarrow>
              float_mul (l ! 0) fr \<noteq> NaN \<and> float_add (cl ! 1) (lambda ! 1) \<noteq> NaN)"
proof -
  let ?s0 = "float_add (cl ! 0) (lambda ! 0)"
  let ?n0 = "if float_less ?s0 (Finite 0) then Finite 0 else ?s0"
  let ?m = "float_mul ?n0 fr"
  have ordered: "\<not> float_less ?m (float_neg ?m)"
    using assms(2) by (rule float_maxFriction_cases(1))
  show ?thesis
    unfolding PenetrationConstraint_Solve_cachedLambda_eq [OF assms(1)]
      PenetrationConstraint_Solve_maxFriction_eq [OF assms(1)] Let_def
    using assms(2) float_clamp_symmetric(2) [OF ordered, of "float_add (cl ! 1) (lambda ! 1)"]
    by simp
qed

theorem PenetrationConstraint_Solve_friction_cone_unless_NaN_witness:
  "length [Finite 1, Finite (1/4)] = 2 \<and> float_less (Finite 0) (Finite (1/2)) \<and>
   PenetrationConstraint_Solve_cachedLambda (Finite (1/2)) [Finite 1, Finite (1/4)] [Finite 1, Finite 2] =
     Some [Finite 2, Finite 1] \<and>
   float_add ([Finite 1, Finite (1/4)] ! 1) ([Finite 1, Finite 2] ! 1) = Finite (9/4) \<and>
   (\<exists>l. PenetrationConstraint_Solve_cachedLambda (Finite (1/2)) [Finite 1, Finite (1/4)] [Finite 1, Finite 2] =
          Some l \<and>
        float_le (float_abs (l ! 1)) (float_mul (l ! 0) (Finite (1/2))))"
proof -
  have len: "length [Finite 1, Finite (1/4)] = 2" by simp
  have pos: "float_less (Finite 0) (Finite (1/2))" by simp
  have run: "PenetrationConstraint_Solve_cachedLambda (Finite (1/2)) [Finite 1, Finite (1/4)]
      [Finite 1, Finite 2] = Some [Finite 2, Finite 1]"
    by (simp add: PenetrationConstraint_Solve_cachedLambda_eq Let_def)
  from PenetrationConstraint_Solve_friction_cone_unless_NaN [OF len pos, of "[Finite 1, Finite 2]"]
  show ?thesis using run by simp
qed

text \<open>
  C3. \<^verbatim>\<open>Solve\<close> of a penetration constraint accumulates the solver's \<open>lambda\<close> into
  \<^verbatim>\<open>cachedLambda\<close>, clamps component 0 at zero and, when the friction is positive,
  component 1 between \<open>- maxFriction\<close> and \<open>maxFriction\<close>; that vector is the
  \<^verbatim>\<open>cachedLambda\<close> it leaves. The impulses it applies to the two bodies are
  \<open>Jt * (cachedLambda_new - cachedLambda_old)\<close>: the transposed Jacobian times the
  difference between the clamped accumulated impulse and the one \<^verbatim>\<open>Solve\<close> found. These
  are not the impulses \<open>Jt * lambda\<close> of the solver's own \<open>lambda\<close>: on the bodies that move
  apart the two differ.
\<close>

theorem PenetrationConstraint_Solve_applies_delta:
  assumes "PenetrationConstraint_sized c"
  shows "(let lambda = PenetrationConstraint_solved E bs c;
          old = PenetrationConstraint.cachedLambda c;
          s0 = old ! 0 + lambda ! 0;
          s1 = old ! 1 + lambda ! 1;
          n0 = (if s0 < 0 then 0 else s0);
          maxFriction = n0 * PenetrationConstraint.friction c;
          n1 = (if 0 < PenetrationConstraint.friction c
                then (if s1 < - maxFriction then - maxFriction
                      else if maxFriction < s1 then maxFriction else s1)
                else s1)
      in PenetrationConstraint_Solve E (bs, c) =
           Some (ApplyImpulses E (a c) (b c)
                   (MatMN_mul_VecN (MatMN_Transpose (PenetrationConstraint.jacobian c))
                      (VecN_sub [n0, n1] old)) bs,
                 c\<lparr>PenetrationConstraint.cachedLambda := [n0, n1]\<rparr>) \<and>
         VecN_sub [n0, n1] old = [n0 - old ! 0, n1 - old ! 1]) \<and>
         (\<exists>E0 bs0 c0. PenetrationConstraint_sized c0 \<and>
            map_option fst (PenetrationConstraint_Solve E0 (bs0, c0)) \<noteq>
              Some (ApplyImpulses E0 (a c0) (b c0)
                      (MatMN_mul_VecN (MatMN_Transpose (PenetrationConstraint.jacobian c0))
                         (PenetrationConstraint_solved E0 bs0 c0)) bs0))"
proof
  let ?lambda = "PenetrationConstraint_solved E bs c"
  let ?old = "PenetrationConstraint.cachedLambda c"
  let ?s0 = "?old ! 0 + ?lambda ! 0"
  let ?s1 = "?old ! 1 + ?lambda ! 1"
  let ?n0 = "if ?s0 < 0 then 0 else ?s0"
  let ?m = "?n0 * PenetrationConstraint.friction c"
  let ?n1 = "if 0 < PenetrationConstraint.friction c
             then (if ?s1 < - ?m then - ?m else if ?m < ?s1 then ?m else ?s1)
             else ?s1"
  from assms have len: "length ?old = 2"
    by (rule PenetrationConstraint_sized_length)
  have n0: "max 0 ?s0 = ?n0"
    by (simp add: max_def)
  have m: "PenetrationConstraint_maxFriction c ?lambda = ?m"
    by (simp add: PenetrationConstraint_maxFriction_eq [OF len] n0)
  have n1: "max (- ?m) (min ?m ?s1) = (if ?s1 < - ?m then - ?m else if ?m < ?s1 then ?m else ?s1)"
    if "0 < PenetrationConstraint.friction c"
  proof -
    from that have "0 \<le> ?m" by simp
    then show ?thesis by (simp add: max_def min_def)
  qed
  have new: "PenetrationConstraint_clamped c ?lambda = Some [?n0, ?n1]"
    unfolding PenetrationConstraint_clamped_eq [OF len] m n0
    using n1 by simp
  have delta: "VecN_sub [?n0, ?n1] ?old = [?n0 - ?old ! 0, ?n1 - ?old ! 1]"
    by (simp add: VecN_sub_def)
  show "let lambda = PenetrationConstraint_solved E bs c;
          old = PenetrationConstraint.cachedLambda c;
          s0 = old ! 0 + lambda ! 0;
          s1 = old ! 1 + lambda ! 1;
          n0 = (if s0 < 0 then 0 else s0);
          maxFriction = n0 * PenetrationConstraint.friction c;
          n1 = (if 0 < PenetrationConstraint.friction c
                then (if s1 < - maxFriction then - maxFriction
                      else if maxFriction < s1 then maxFriction else s1)
                else s1)
      in PenetrationConstraint_Solve E (bs, c) =
           Some (ApplyImpulses E (a c) (b c)
                   (MatMN_mul_VecN (MatMN_Transpose (PenetrationConstraint.jacobian c))
                      (VecN_sub [n0, n1] old)) bs,
                 c\<lparr>PenetrationConstraint.cachedLambda := [n0, n1]\<rparr>) \<and>
         VecN_sub [n0, n1] old = [n0 - old ! 0, n1 - old ! 1]"
    unfolding Let_def using PenetrationConstraint_Solve_eq [OF new] delta by blast
  show "\<exists>E0 bs0 c0. PenetrationConstraint_sized c0 \<and>
            map_option fst (PenetrationConstraint_Solve E0 (bs0, c0)) \<noteq>
              Some (ApplyImpulses E0 (a c0) (b c0)
                      (MatMN_mul_VecN (MatMN_Transpose (PenetrationConstraint.jacobian c0))
                         (PenetrationConstraint_solved E0 bs0 c0)) bs0)"
    using apart_started_sized apart_raw_differs by blast
qed

theorem PenetrationConstraint_Solve_applies_delta_witness:
  "PenetrationConstraint_sized (snd apart_started) \<and>
   PenetrationConstraint_solved Reference (fst apart_started) (snd apart_started) = [- 33/50, 0] \<and>
   PenetrationConstraint.cachedLambda (snd apart_started) = [0, 0] \<and>
   PenetrationConstraint_Solve Reference (fst apart_started, snd apart_started) =
     Some (ApplyImpulses Reference (a (snd apart_started)) (b (snd apart_started))
             (MatMN_mul_VecN (MatMN_Transpose (PenetrationConstraint.jacobian (snd apart_started)))
                [0, 0])
             (fst apart_started),
           (snd apart_started)\<lparr>PenetrationConstraint.cachedLambda := [0, 0]\<rparr>) \<and>
   PenetrationConstraint_sized (snd contact_started) \<and>
   PenetrationConstraint_solved Reference (fst contact_started) (snd contact_started) = [9/100, - 1/4] \<and>
   PenetrationConstraint.cachedLambda (snd contact_started) = [1, 1/4] \<and>
   PenetrationConstraint_Solve Reference (fst contact_started, snd contact_started) =
     Some (ApplyImpulses Reference (a (snd contact_started)) (b (snd contact_started))
             (MatMN_mul_VecN (MatMN_Transpose (PenetrationConstraint.jacobian (snd contact_started)))
                [9/100, - 1/4])
             (fst contact_started),
           (snd contact_started)\<lparr>PenetrationConstraint.cachedLambda := [109/100, 0]\<rparr>)"
proof -
  have old: "PenetrationConstraint.cachedLambda (snd apart_started) = [0, 0]"
    by (simp add: apart_started_snd contact_fresh_def)
  have fr: "PenetrationConstraint.friction (snd apart_started) = 1/2"
    by (simp add: apart_started_snd)
  from PenetrationConstraint_Solve_applies_delta
    [OF apart_started_sized, where E = Reference and bs = "fst apart_started",
     unfolded Let_def apart_solved old fr]
  have apart: "PenetrationConstraint_Solve Reference (fst apart_started, snd apart_started) =
     Some (ApplyImpulses Reference (a (snd apart_started)) (b (snd apart_started))
             (MatMN_mul_VecN (MatMN_Transpose (PenetrationConstraint.jacobian (snd apart_started)))
                [0, 0])
             (fst apart_started),
           (snd apart_started)\<lparr>PenetrationConstraint.cachedLambda := [0, 0]\<rparr>)"
    by (simp add: VecN_sub_def)
  from PenetrationConstraint_Solve_applies_delta
    [OF contact_started_sized, where E = Reference and bs = "fst contact_started",
     unfolded Let_def contact_solved contact_started_cachedLambda contact_started_friction]
  have approach: "PenetrationConstraint_Solve Reference (fst contact_started, snd contact_started) =
     Some (ApplyImpulses Reference (a (snd contact_started)) (b (snd contact_started))
             (MatMN_mul_VecN (MatMN_Transpose (PenetrationConstraint.jacobian (snd contact_started)))
                [9/100, - 1/4])
             (fst contact_started),
           (snd contact_started)\<lparr>PenetrationConstraint.cachedLambda := [109/100, 0]\<rparr>)"
    by (simp add: VecN_sub_def)
  show ?thesis
    using apart_started_sized apart_solved old apart contact_started_sized contact_solved
      contact_started_cachedLambda approach
    by simp
qed

text \<open>
  C10, as stated (with positive friction the bounds of the clamp are ordered,
  \<open>- maxFriction \<le> maxFriction\<close>, on every execution), fails where \<^verbatim>\<open>maxFriction\<close> is NaN:
  with an infinite friction and a normal impulse clamped to 0 the product of line 204 is
  \<open>0 * \<infinity>\<close>, and with a NaN normal impulse it is NaN; no NaN is below or equal to a NaN.
\<close>

theorem PenetrationConstraint_Solve_clamp_bounds_NaN:
  "float_less (Finite 0) PlusInfinity \<and>
   PenetrationConstraint_Solve_accumulated [Finite 0, Finite 0] [Finite (- 1), Finite 5] ! 0 = Finite 0 \<and>
   PenetrationConstraint_Solve_maxFriction PlusInfinity [Finite 0, Finite 0] [Finite (- 1), Finite 5] = NaN \<and>
   \<not> float_le
       (float_neg (PenetrationConstraint_Solve_maxFriction PlusInfinity [Finite 0, Finite 0]
                     [Finite (- 1), Finite 5]))
       (PenetrationConstraint_Solve_maxFriction PlusInfinity [Finite 0, Finite 0] [Finite (- 1), Finite 5]) \<and>
   float_less (Finite 0) (Finite (1/2)) \<and>
   PenetrationConstraint_Solve_maxFriction (Finite (1/2)) [Finite 0, Finite 0] [NaN, Finite 5] = NaN \<and>
   \<not> float_le
       (float_neg (PenetrationConstraint_Solve_maxFriction (Finite (1/2)) [Finite 0, Finite 0]
                     [NaN, Finite 5]))
       (PenetrationConstraint_Solve_maxFriction (Finite (1/2)) [Finite 0, Finite 0] [NaN, Finite 5])"
  by (simp add: PenetrationConstraint_Solve_maxFriction_eq PenetrationConstraint_Solve_accumulated_eq)

text \<open>
  C10, amended. In \<^verbatim>\<open>Solve\<close> of a penetration constraint \<^verbatim>\<open>maxFriction\<close> is the product
  of the friction and \<^verbatim>\<open>cachedLambda[0]\<close> after its clamp at zero. So, when the friction is
  positive, \<open>maxFriction < - maxFriction\<close> never holds: the call of \<^verbatim>\<open>std::clamp\<close> is never
  one with \<open>hi < lo\<close>, for every value and every \<open>lambda\<close> of the solver, and \<^verbatim>\<open>Solve\<close>
  returns. The bounds are ordered, \<open>- maxFriction \<le> maxFriction\<close>, exactly when
  \<^verbatim>\<open>maxFriction\<close> is not NaN; and it is NaN exactly when the accumulated sum
  \<^verbatim>\<open>cachedLambda[0] + lambda[0]\<close> is NaN, or that sum is not positive and the friction is
  infinite.
\<close>

theorem PenetrationConstraint_Solve_clamp_bounds_ordered:
  assumes "length cl = 2" and "float_less (Finite 0) fr"
  shows "(let s0 = float_add (cl ! 0) (lambda ! 0);
          maxFriction = PenetrationConstraint_Solve_maxFriction fr cl lambda
      in maxFriction = float_mul (if float_less s0 (Finite 0) then Finite 0 else s0) fr \<and>
         \<not> float_less maxFriction (float_neg maxFriction) \<and>
         float_clamp v (float_neg maxFriction) maxFriction \<noteq> None \<and>
         PenetrationConstraint_Solve_cachedLambda fr cl lambda \<noteq> None \<and>
         (float_le (float_neg maxFriction) maxFriction \<longleftrightarrow> maxFriction \<noteq> NaN) \<and>
         (maxFriction = NaN \<longleftrightarrow> s0 = NaN \<or> \<not> float_less (Finite 0) s0 \<and> fr = PlusInfinity))"
proof -
  let ?s0 = "float_add (cl ! 0) (lambda ! 0)"
  let ?m = "float_mul (if float_less ?s0 (Finite 0) then Finite 0 else ?s0) fr"
  have m: "PenetrationConstraint_Solve_maxFriction fr cl lambda = ?m"
    using assms(1) by (rule PenetrationConstraint_Solve_maxFriction_eq)
  have never: "\<not> float_less ?m (float_neg ?m)"
    using assms(2) by (rule float_maxFriction_cases(1))
  have defined: "float_clamp v (float_neg ?m) ?m \<noteq> None"
    by (simp add: float_clamp_symmetric(1) [OF never])
  have returns: "PenetrationConstraint_Solve_cachedLambda fr cl lambda \<noteq> None"
    by (simp add: PenetrationConstraint_Solve_cachedLambda_eq [OF assms(1)] Let_def)
  have ordered: "float_le (float_neg ?m) ?m \<longleftrightarrow> ?m \<noteq> NaN"
    using assms(2) by (rule float_maxFriction_cases(2))
  have nan: "?m = NaN \<longleftrightarrow> ?s0 = NaN \<or> \<not> float_less (Finite 0) ?s0 \<and> fr = PlusInfinity"
    using assms(2) by (rule float_maxFriction_cases(3))
  show ?thesis
    unfolding Let_def m using never defined returns ordered nan by blast
qed

theorem PenetrationConstraint_Solve_clamp_bounds_ordered_witness:
  "length [Finite 1, Finite (1/4)] = 2 \<and> float_less (Finite 0) (Finite (1/2)) \<and>
   PenetrationConstraint_Solve_maxFriction (Finite (1/2)) [Finite 1, Finite (1/4)] [Finite (- 3), Finite 2] =
     Finite 0 \<and>
   PenetrationConstraint_Solve_maxFriction (Finite (1/2)) [Finite 1, Finite (1/4)] [Finite 1, Finite 2] =
     Finite 1 \<and>
   float_le (float_neg (PenetrationConstraint_Solve_maxFriction (Finite (1/2)) [Finite 1, Finite (1/4)]
                          [Finite 1, Finite 2]))
     (PenetrationConstraint_Solve_maxFriction (Finite (1/2)) [Finite 1, Finite (1/4)] [Finite 1, Finite 2]) \<and>
   float_clamp (Finite 7)
     (float_neg (PenetrationConstraint_Solve_maxFriction (Finite (1/2)) [Finite 1, Finite (1/4)]
                   [Finite 1, Finite 2]))
     (PenetrationConstraint_Solve_maxFriction (Finite (1/2)) [Finite 1, Finite (1/4)] [Finite 1, Finite 2])
     \<noteq> None \<and>
   PenetrationConstraint_Solve_cachedLambda (Finite (1/2)) [Finite 1, Finite (1/4)] [Finite 1, Finite 2] \<noteq> None"
proof -
  have len: "length [Finite 1, Finite (1/4)] = 2" by simp
  have pos: "float_less (Finite 0) (Finite (1/2))" by simp
  have m1: "PenetrationConstraint_Solve_maxFriction (Finite (1/2)) [Finite 1, Finite (1/4)]
      [Finite (- 3), Finite 2] = Finite 0"
    by (simp add: PenetrationConstraint_Solve_maxFriction_eq)
  have m2: "PenetrationConstraint_Solve_maxFriction (Finite (1/2)) [Finite 1, Finite (1/4)]
      [Finite 1, Finite 2] = Finite 1"
    by (simp add: PenetrationConstraint_Solve_maxFriction_eq)
  note run = PenetrationConstraint_Solve_clamp_bounds_ordered
      [OF len pos, where lambda = "[Finite 1, Finite 2]" and v = "Finite 7", unfolded Let_def]
  from run have "float_clamp (Finite 7)
      (float_neg (PenetrationConstraint_Solve_maxFriction (Finite (1/2)) [Finite 1, Finite (1/4)]
                    [Finite 1, Finite 2]))
      (PenetrationConstraint_Solve_maxFriction (Finite (1/2)) [Finite 1, Finite (1/4)] [Finite 1, Finite 2])
      \<noteq> None"
    by blast
  moreover from run have
    "PenetrationConstraint_Solve_cachedLambda (Finite (1/2)) [Finite 1, Finite (1/4)] [Finite 1, Finite 2] \<noteq> None"
    by blast
  moreover from run m2 have "float_le
      (float_neg (PenetrationConstraint_Solve_maxFriction (Finite (1/2)) [Finite 1, Finite (1/4)]
                    [Finite 1, Finite 2]))
      (PenetrationConstraint_Solve_maxFriction (Finite (1/2)) [Finite 1, Finite (1/4)] [Finite 1, Finite 2])"
    by simp
  ultimately show ?thesis
    using len pos m1 m2 by blast
qed

section \<open>PreSolve of the penetration constraint\<close>

text \<open>
  C5. After \<^verbatim>\<open>PreSolve\<close> of a penetration constraint the bias is
  \<open>(0.2 / dt) * min 0 ((pb - pa) \<cdot> (- n) + 0.01) + e * ((va - vb) \<cdot> n)\<close>, where
  \<open>e = min A.restitution B.restitution\<close>,
  \<open>va = A.velocity + (- A.angularVelocity * ra.y, A.angularVelocity * ra.x)\<close>, \<open>vb\<close> is the
  same for \<open>B\<close>, and \<open>n\<close> is the contact normal in world space. The velocities, angular
  velocities and restitutions are those of the bodies as \<^verbatim>\<open>PreSolve\<close> leaves them (the
  warm start comes before the bias); \<open>pa\<close>, \<open>pb\<close>, \<open>n\<close>, \<open>ra\<close> and \<open>rb\<close> are computed
  from the bodies as \<^verbatim>\<open>PreSolve\<close> finds them.
\<close>

theorem PenetrationConstraint_PreSolve_bias_formula:
  "(let bs' = fst (PenetrationConstraint_PreSolve E dt (bs, c));
        pa = LocalSpaceToWorldSpace E (bs (a c)) (aPoint c);
        pb = LocalSpaceToWorldSpace E (bs (b c)) (bPoint c);
        n = LocalSpaceToWorldSpace E (bs (a c)) (normal c);
        ra = Vec2_sub pa (position (bs (a c)));
        rb = Vec2_sub pb (position (bs (b c)));
        A = bs' (a c); B = bs' (b c);
        e = min (restitution A) (restitution B);
        va = Vec2_add (velocity A) \<lparr>x = - angularVelocity A * y ra, y = angularVelocity A * x ra\<rparr>;
        vb = Vec2_add (velocity B) \<lparr>x = - angularVelocity B * y rb, y = angularVelocity B * x rb\<rparr>;
        bias' = PenetrationConstraint.bias (snd (PenetrationConstraint_PreSolve E dt (bs, c)))
    in bias' =
         (0.2 / dt) * min 0 (Vec2_Dot (Vec2_sub pb pa) (Vec2_neg n) + 0.01) +
         e * Vec2_Dot (Vec2_sub va vb) n \<and>
       bias' =
         (0.2 / dt) * min 0 (0.01 - ((x pb - x pa) * x n + (y pb - y pa) * y n)) +
         e * (((x (velocity A) - angularVelocity A * y ra) -
               (x (velocity B) - angularVelocity B * y rb)) * x n +
              ((y (velocity A) + angularVelocity A * x ra) -
               (y (velocity B) + angularVelocity B * x rb)) * y n))"
proof -
  let ?bs' = "fst (PenetrationConstraint_PreSolve E dt (bs, c))"
  let ?pa = "LocalSpaceToWorldSpace E (bs (a c)) (aPoint c)"
  let ?pb = "LocalSpaceToWorldSpace E (bs (b c)) (bPoint c)"
  let ?n = "LocalSpaceToWorldSpace E (bs (a c)) (normal c)"
  let ?ra = "Vec2_sub ?pa (position (bs (a c)))"
  let ?rb = "Vec2_sub ?pb (position (bs (b c)))"
  let ?A = "?bs' (a c)" and ?B = "?bs' (b c)"
  let ?va = "Vec2_add (velocity ?A) \<lparr>x = - angularVelocity ?A * y ?ra, y = angularVelocity ?A * x ?ra\<rparr>"
  let ?vb = "Vec2_add (velocity ?B) \<lparr>x = - angularVelocity ?B * y ?rb, y = angularVelocity ?B * x ?rb\<rparr>"
  have stored: "PenetrationConstraint.bias (snd (PenetrationConstraint_PreSolve E dt (bs, c))) =
      (0.2 / dt) * min 0 (Vec2_Dot (Vec2_sub ?pb ?pa) (Vec2_neg ?n) + 0.01) +
      min (restitution ?A) (restitution ?B) * Vec2_Dot (Vec2_sub ?va ?vb) ?n"
    using PenetrationConstraint_bias_after_PreSolve [of E dt bs c] by (simp add: Let_def)
  have depth: "Vec2_Dot (Vec2_sub ?pb ?pa) (Vec2_neg ?n) + 0.01 =
      0.01 - ((x ?pb - x ?pa) * x ?n + (y ?pb - y ?pa) * y ?n)"
    by (simp add: Vec2_Dot_def Vec2_sub_def Vec2_neg_def)
  have vrel: "Vec2_Dot (Vec2_sub ?va ?vb) ?n =
      ((x (velocity ?A) - angularVelocity ?A * y ?ra) -
       (x (velocity ?B) - angularVelocity ?B * y ?rb)) * x ?n +
      ((y (velocity ?A) + angularVelocity ?A * x ?ra) -
       (y (velocity ?B) + angularVelocity ?B * x ?rb)) * y ?n"
    by (simp add: Vec2_Dot_def Vec2_sub_def Vec2_add_def)
  have coordinates: "PenetrationConstraint.bias (snd (PenetrationConstraint_PreSolve E dt (bs, c))) =
      (0.2 / dt) * min 0 (0.01 - ((x ?pb - x ?pa) * x ?n + (y ?pb - y ?pa) * y ?n)) +
      min (restitution ?A) (restitution ?B) *
        (((x (velocity ?A) - angularVelocity ?A * y ?ra) -
          (x (velocity ?B) - angularVelocity ?B * y ?rb)) * x ?n +
         ((y (velocity ?A) + angularVelocity ?A * x ?ra) -
          (y (velocity ?B) + angularVelocity ?B * x ?rb)) * y ?n)"
    by (simp only: stored depth vrel)
  show ?thesis
    unfolding Let_def using stored coordinates by blast
qed

theorem PenetrationConstraint_PreSolve_bias_formula_witness:
  "PenetrationConstraint.bias (snd contact_started) = - 9/50 \<and>
   velocity (fst contact_started 0) = \<lparr>x = 0, y = 1/4\<rparr> \<and> velocity (scene 0) = \<lparr>x = 1, y = 0\<rparr>"
proof -
  have "PenetrationConstraint.bias (snd contact_started) = - 9/50"
    using PenetrationConstraint_PreSolve_bias_formula [of Reference "1/10" scene contact]
    unfolding contact_started_def [symmetric] Let_def
    by (simp add: contact_started_fst contact_def ref_defs vec_defs scene_def)
  then show ?thesis by (simp add: contact_started_fst scene_def)
qed



section \<open>PreSolve and Solve of the joint constraint\<close>

text \<open>
  C4. After \<^verbatim>\<open>PreSolve\<close> of a joint constraint (Jacobian of 1 row of 6), the row of the
  Jacobian is \<open>[2 (pa - pb).x, 2 (pa - pb).y, 2 (ra \<times> (pa - pb)), 2 (pb - pa).x,
  2 (pb - pa).y, 2 (rb \<times> (pb - pa))]\<close>, where \<open>pa\<close> and \<open>pb\<close> are the stored local anchors
  in world space, \<open>ra = pa - A.position\<close> and \<open>rb = pb - B.position\<close>. The bodies are read
  as \<^verbatim>\<open>PreSolve\<close> finds them.
\<close>

theorem JointConstraint_PreSolve_Jacobian_row:
  assumes "JointConstraint_sized c"
  shows "JointConstraint.jacobian (snd (JointConstraint_PreSolve E dt (bs, c))) =
     (let pa = LocalSpaceToWorldSpace E (bs (a c)) (aPoint c);
          pb = LocalSpaceToWorldSpace E (bs (b c)) (bPoint c);
          ra = Vec2_sub pa (position (bs (a c)));
          rb = Vec2_sub pb (position (bs (b c)))
      in [[2 * x (Vec2_sub pa pb), 2 * y (Vec2_sub pa pb), 2 * Vec2_Cross ra (Vec2_sub pa pb),
           2 * x (Vec2_sub pb pa), 2 * y (Vec2_sub pb pa), 2 * Vec2_Cross rb (Vec2_sub pb pa)]])"
proof -
  from assms obtain e0 e1 e2 e3 e4 e5 l0 where
    old: "JointConstraint.jacobian c = [[e0, e1, e2, e3, e4, e5]]"
    by (rule JointConstraint_sized_cases)
  have zeroed: "MatMN_Zero (JointConstraint.jacobian c) = [[0, 0, 0, 0, 0, 0]]"
    by (simp add: old MatMN_Zero_def)
  have scaled: "x (Vec2_scale v 2) = 2 * x v" "y (Vec2_scale v 2) = 2 * y v" for v
    by (simp_all add: Vec2_scale_def)
  show ?thesis
    by (simp add: JointConstraint_PreSolve_def Let_def zeroed MatMN_set_def scaled)
qed

theorem JointConstraint_PreSolve_Jacobian_row_witness:
  "JointConstraint_sized joint \<and>
   JointConstraint.jacobian (snd (JointConstraint_PreSolve Reference (1/10) (scene, joint))) =
     [[- 1, 1, 3/2, 1, - 1, 1/2]]"
  using joint_sized JointConstraint_PreSolve_Jacobian_row [OF joint_sized, of Reference "1/10" scene]
  by (simp add: Let_def ref_defs vec_defs scene_def joint_def)

text \<open>
  C6. After \<^verbatim>\<open>PreSolve\<close> of a joint constraint the bias is
  \<open>(0.1 / dt) * max 0 (|pb - pa|\<^sup>2 - 0.01)\<close>: Baumgarte stabilisation on the squared distance
  of the anchors, with slop 0.01 and beta 0.1. In particular the bias is 0 when the squared
  distance is at most 0.01 (for a time step other than 0, where the quotient of the model is
  the quotient of the code).
\<close>

theorem JointConstraint_PreSolve_bias_baumgarte:
  "(let pa = LocalSpaceToWorldSpace E (bs (a c)) (aPoint c);
        pb = LocalSpaceToWorldSpace E (bs (b c)) (bPoint c);
        d = Vec2_sub pb pa;
        C = (x d)\<^sup>2 + (y d)\<^sup>2;
        bias' = JointConstraint.bias (snd (JointConstraint_PreSolve E dt (bs, c)))
    in bias' = (0.1 / dt) * max 0 (C - 0.01) \<and> (dt \<noteq> 0 \<and> C \<le> 0.01 \<longrightarrow> bias' = 0))"
proof -
  let ?pa = "LocalSpaceToWorldSpace E (bs (a c)) (aPoint c)"
  let ?pb = "LocalSpaceToWorldSpace E (bs (b c)) (bPoint c)"
  let ?C = "(x (Vec2_sub ?pb ?pa))\<^sup>2 + (y (Vec2_sub ?pb ?pa))\<^sup>2"
  let ?bias = "JointConstraint.bias (snd (JointConstraint_PreSolve E dt (bs, c)))"
  have dot: "Vec2_Dot (Vec2_sub ?pb ?pa) (Vec2_sub ?pb ?pa) = ?C"
    by (simp add: Vec2_Dot_def power2_eq_square)
  have formula: "?bias = (0.1 / dt) * max 0 (?C - 0.01)"
    by (simp add: JointConstraint_PreSolve_def Let_def dot)
  have "?bias = 0" if "?C \<le> 0.01"
  proof -
    from that have "max 0 (?C - 0.01) = 0" by simp
    with formula show ?thesis by simp
  qed
  with formula show ?thesis
    unfolding Let_def by blast
qed

theorem JointConstraint_PreSolve_bias_baumgarte_witness:
  "(1/10 :: real) \<noteq> 0 \<and>
   (x (Vec2_sub (LocalSpaceToWorldSpace Reference (scene (b joint_tight)) (bPoint joint_tight))
                (LocalSpaceToWorldSpace Reference (scene (a joint_tight)) (aPoint joint_tight))))\<^sup>2 +
   (y (Vec2_sub (LocalSpaceToWorldSpace Reference (scene (b joint_tight)) (bPoint joint_tight))
                (LocalSpaceToWorldSpace Reference (scene (a joint_tight)) (aPoint joint_tight))))\<^sup>2
     \<le> (0.01 :: real) \<and>
   JointConstraint.bias (snd (JointConstraint_PreSolve Reference (1/10) (scene, joint_tight))) = 0 \<and>
   JointConstraint.bias (snd (JointConstraint_PreSolve Reference (1/10) (scene, joint))) = 49/100"
proof -
  have near: "(x (Vec2_sub (LocalSpaceToWorldSpace Reference (scene (b joint_tight)) (bPoint joint_tight))
                (LocalSpaceToWorldSpace Reference (scene (a joint_tight)) (aPoint joint_tight))))\<^sup>2 +
     (y (Vec2_sub (LocalSpaceToWorldSpace Reference (scene (b joint_tight)) (bPoint joint_tight))
                (LocalSpaceToWorldSpace Reference (scene (a joint_tight)) (aPoint joint_tight))))\<^sup>2
     \<le> (0.01 :: real)"
    by (simp add: ref_defs vec_defs scene_def joint_tight_def joint_def)
  have "JointConstraint.bias (snd (JointConstraint_PreSolve Reference (1/10) (scene, joint_tight))) = 0"
    using JointConstraint_PreSolve_bias_baumgarte [of Reference scene joint_tight "1/10"] near
    unfolding Let_def by simp
  moreover have "JointConstraint.bias (snd (JointConstraint_PreSolve Reference (1/10) (scene, joint))) = 49/100"
    using JointConstraint_PreSolve_bias_baumgarte [of Reference scene joint "1/10"]
    unfolding Let_def by (simp add: ref_defs vec_defs scene_def joint_def power2_eq_square)
  ultimately show ?thesis using near by simp
qed

text \<open>
  C7. \<^verbatim>\<open>Solve\<close> of a joint constraint builds \<open>V\<close> and \<open>invM\<close> from the bodies as it finds
  them, forms \<open>lhs = J * invM * Jt\<close> (one entry, the effective mass) and \<open>rhs = - (J * V)\<close>
  with the bias subtracted from \<open>rhs[0]\<close>, takes the solver's \<open>lambda\<close> for
  \<open>lhs * lambda = rhs\<close>, adds it into \<^verbatim>\<open>cachedLambda\<close> and applies the impulses
  \<open>Jt * lambda\<close> to both bodies. Nothing clamps \<open>lambda\<close>: whatever its sign, the new
  \<^verbatim>\<open>cachedLambda[0]\<close> is the old one plus \<open>lambda[0]\<close> and the impulses are the row of the
  Jacobian times \<open>lambda[0]\<close>.
\<close>

theorem JointConstraint_Solve_raw_impulse:
  assumes "JointConstraint_sized c"
  shows "(let J = JointConstraint.jacobian c;
          Jt = MatMN_Transpose J;
          r = J ! 0;
          A = bs (a c); B = bs (b c);
          lhs = MatMN_mul (MatMN_mul J (GetInvM bs c)) Jt;
          rhs0 = VecN_scale (MatMN_mul_VecN J (GetVelocities bs c)) (- 1);
          rhs = rhs0[0 := rhs0 ! 0 - JointConstraint.bias c];
          lambda = SolveGaussSeidel E lhs rhs
      in JointConstraint_Solve E (bs, c) =
           (ApplyImpulses E (a c) (b c) (MatMN_mul_VecN Jt lambda) bs,
            c\<lparr>JointConstraint.cachedLambda := VecN_add (JointConstraint.cachedLambda c) lambda\<rparr>) \<and>
         lhs = [[r ! 0 * invMass A * r ! 0 + r ! 1 * invMass A * r ! 1 + r ! 2 * invI A * r ! 2 +
                 r ! 3 * invMass B * r ! 3 + r ! 4 * invMass B * r ! 4 + r ! 5 * invI B * r ! 5]] \<and>
         rhs = [- (r ! 0 * x (velocity A) + r ! 1 * y (velocity A) + r ! 2 * angularVelocity A +
                   r ! 3 * x (velocity B) + r ! 4 * y (velocity B) + r ! 5 * angularVelocity B) -
                JointConstraint.bias c] \<and>
         VecN_add (JointConstraint.cachedLambda c) lambda = [JointConstraint.cachedLambda c ! 0 + lambda ! 0] \<and>
         MatMN_mul_VecN Jt lambda =
           [r ! 0 * lambda ! 0, r ! 1 * lambda ! 0, r ! 2 * lambda ! 0,
            r ! 3 * lambda ! 0, r ! 4 * lambda ! 0, r ! 5 * lambda ! 0])"
proof -
  from assms obtain e0 e1 e2 e3 e4 e5 l0 where
    c: "JointConstraint.jacobian c = [[e0, e1, e2, e3, e4, e5]]" "JointConstraint.cachedLambda c = [l0]"
    by (rule JointConstraint_sized_cases)
  show ?thesis
    unfolding Let_def
    apply (intro conjI)
    subgoal by (simp add: JointConstraint_Solve_def Let_def)
    subgoal by (simp add: c Transpose_1x6 MatMN_mul_def MatMN_Transpose_def GetInvM_def VecN_Dot_def)
    subgoal by (simp add: c MatMN_mul_VecN_def GetVelocities_def VecN_Dot_def VecN_scale_def)
    subgoal by (simp add: c VecN_add_def)
    subgoal by (simp add: c Transpose_1x6 MatMN_mul_VecN_def VecN_Dot_def)
    done
qed

theorem JointConstraint_Solve_raw_impulse_witness:
  "JointConstraint_sized (snd joint_started) \<and>
   JointConstraint.cachedLambda (snd joint_started) = [1/2] \<and>
   JointConstraint.cachedLambda (snd (JointConstraint_Solve Reference (fst joint_started, snd joint_started))) =
     [151/650] \<and>
   velocity (fst (JointConstraint_Solve Reference (fst joint_started, snd joint_started)) 0) =
     \<lparr>x = 499/650, y = 151/650\<rparr>"
proof -
  note run = JointConstraint_Solve_raw_impulse [OF joint_started_sized,
      where E = Reference and bs = "fst joint_started", unfolded Let_def joint_started_lambda]
  from run have sol: "JointConstraint_Solve Reference (fst joint_started, snd joint_started) =
      (ApplyImpulses Reference (a (snd joint_started)) (b (snd joint_started))
         (MatMN_mul_VecN (MatMN_Transpose (JointConstraint.jacobian (snd joint_started))) [- 87/325])
         (fst joint_started),
       (snd joint_started)\<lparr>JointConstraint.cachedLambda :=
          VecN_add (JointConstraint.cachedLambda (snd joint_started)) [- 87/325]\<rparr>)"
    by blast
  have "JointConstraint.cachedLambda (snd (JointConstraint_Solve Reference (fst joint_started, snd joint_started))) =
      [151/650]"
    unfolding sol by (simp add: joint_started_rest VecN_add_def)
  moreover have "velocity (fst (JointConstraint_Solve Reference (fst joint_started, snd joint_started)) 0) =
      \<lparr>x = 499/650, y = 151/650\<rparr>"
    unfolding sol
    by (simp add: joint_started_rest joint_started_jacobian ApplyImpulses_at Transpose_1x6
        MatMN_mul_VecN_def VecN_Dot_def joint_started_fst ref_defs vec_defs scene_def)
  ultimately show ?thesis
    using joint_started_sized joint_started_rest(1) by simp
qed

end
